theory Spec2Isabelle
  imports
    Main
    "HOL-Library.Sublist"
    "HOL-Library.AList"
    "HOL-Library.Multiset"
    "HOL-Library.Product_Lexorder"
begin

section \<open>Values, errors and strings\<close>

text \<open>
  The curation service (\<^verbatim>\<open>curation_service/app.py\<close>) is a Flask application. Its view
  functions are embedded as HOL functions over explicit state: the blob store (local files
  and S3 objects), the module-level dictionary \<^verbatim>\<open>CURATIONS\<close>, and the values the external
  collaborators return. Every \<^verbatim>\<open>raise\<close>, failed \<^verbatim>\<open>assert\<close> and \<^verbatim>\<open>abort\<close> of the source is
  a value \<open>Inl e\<close> of the result.

  Python values that travel through JSON bodies and dictionaries are values of \<open>pyval\<close>.
  A \<^verbatim>\<open>datetime\<close> is the number of microseconds on the local clock; a dictionary is an
  association list in insertion order. JSON numbers with a fractional part are not
  represented.
\<close>

datatype pyval =
    PNone
  | PBool bool
  | PInt int
  | PStr string
  | PDate int
  | PList "pyval list"
  | PDict "(string \<times> pyval) list"

datatype error =
    AssertionError string
  | TypeError
  | ValueError
  | AttributeError
  | FileNotFoundError
  | NoSuchKey
  | BadHashError int
  | HTTPException nat string
  | ExternalError string

text \<open>
  What a view function hands back to Flask: the response built by \<^verbatim>\<open>jsonify(x)\<close>,
  represented by its payload \<open>x\<close>, or Python's \<^verbatim>\<open>None\<close> when the function falls off its end.
\<close>

datatype retval = Jsonify pyval | ReturnsNone

subsection \<open>String operations of the source\<close>

text \<open>
  \<^verbatim>\<open>s.startswith(p)\<close> is \<open>prefix p s\<close> and \<^verbatim>\<open>s.endswith(e)\<close> is \<open>suffix e s\<close>.
  \<^verbatim>\<open>s.replace(old, new)\<close> replaces every non-overlapping occurrence of \<open>old\<close>, scanning
  from the left; for an empty \<open>old\<close> Python puts \<open>new\<close> before every character and at the end.
\<close>

function replace :: "string \<Rightarrow> string \<Rightarrow> string \<Rightarrow> string" where
  "replace old new s =
     (if old = [] then new @ concat (map (\<lambda>c. c # new) s)
      else if s = [] then []
      else if prefix old s then new @ replace old new (drop (length old) s)
      else hd s # replace old new (tl s))"
  by pat_completeness auto
termination
  by (relation "measure (\<lambda>(old, new, s). length s)") auto

declare replace.simps [simp del]

text \<open>\<^verbatim>\<open>str(n)\<close> for an integer: decimal digits, with a minus sign for negative numbers.\<close>

definition digit_char :: "nat \<Rightarrow> char" where
  "digit_char d = ''0123456789'' ! (d mod 10)"

fun str_nat :: "nat \<Rightarrow> string" where
  "str_nat n = (if n < 10 then [digit_char n] else str_nat (n div 10) @ [digit_char (n mod 10)])"

declare str_nat.simps [simp del]

definition str_int :: "int \<Rightarrow> string" where
  "str_int i = (if i < 0 then CHR ''-'' # str_nat (nat (- i)) else str_nat (nat i))"

text \<open>
  \<^verbatim>\<open>s3_path_patt = re.compile('^s3:([-a-zA-Z0-9_]+)/(.*?)$')\<close> with \<^verbatim>\<open>.match\<close>: the text
  \<^verbatim>\<open>s3:\<close>, a non-empty bucket name of the listed characters, a slash, and a key without
  line breaks; \<^verbatim>\<open>$\<close> also matches before one final line break, which then is not part of
  the key. The result is the pair \<^verbatim>\<open>m.groups()\<close>.
\<close>

definition bucket_char :: "char \<Rightarrow> bool" where
  "bucket_char c \<longleftrightarrow>
     c \<in> set ''-_abcdefghijklmnopqrstuvwxyzABCDEFGHIJKLMNOPQRSTUVWXYZ0123456789''"

definition s3_path_patt :: "string \<Rightarrow> (string \<times> string) option" where
  "s3_path_patt s =
     (if take 3 s = ''s3:'' then
        (let bucket = takeWhile bucket_char (drop 3 s);
             rest = dropWhile bucket_char (drop 3 s)
         in if bucket \<noteq> [] \<and> rest \<noteq> [] \<and> hd rest = CHR ''/'' then
              (let key = tl rest;
                   key' = (if key \<noteq> [] \<and> last key = CHR 0x0A then butlast key else key)
               in if CHR 0x0A \<in> set key' then None else Some (bucket, key'))
            else None)
      else None)"

text \<open>\<^verbatim>\<open>os.path.join(a, b)\<close> for two POSIX path components.\<close>

definition path_join :: "string \<Rightarrow> string \<Rightarrow> string" where
  "path_join a b =
     (if prefix ''/'' b then b
      else if a = [] \<or> suffix ''/'' a then a @ b
      else a @ ''/'' @ b)"

section \<open>Blob store adapter\<close>

text \<open>
  The two backends. \<open>s3_objects\<close> holds the objects of S3 as \<open>((bucket, key), body)\<close> in
  the order in which \<^verbatim>\<open>list_objects_v2\<close> reports them; \<open>local_files\<close> holds the local files
  as \<open>(path, content)\<close> in the order of \<^verbatim>\<open>os.listdir\<close>. A path names a file by its spelling.
  Failures of the backends themselves (an unreachable bucket, a missing or unwritable
  directory) are outside this model; a read of a location that holds nothing fails.
\<close>

record store =
  s3_objects :: "((string \<times> string) \<times> string) list"
  local_files :: "(string \<times> string) list"

text \<open>
  \<^verbatim>\<open>os.listdir(d)\<close>: the names \<open>fn\<close> (without a slash) of the files whose path is
  \<^verbatim>\<open>path.join(d, fn)\<close>.
\<close>

definition dir_entry :: "string \<Rightarrow> string \<Rightarrow> string option" where
  "dir_entry d p =
     (let pre = (if d = [] \<or> suffix ''/'' d then d else d @ ''/'')
      in if prefix pre p \<and> drop (length pre) p \<noteq> [] \<and> CHR ''/'' \<notin> set (drop (length pre) p)
         then Some (drop (length pre) p) else None)"

definition listdir :: "store \<Rightarrow> string \<Rightarrow> string list" where
  "listdir st d = List.map_filter (\<lambda>(p, c). dir_entry d p) (local_files st)"

text \<open>
  \<^verbatim>\<open>_list_files(name)\<close>, with the global \<^verbatim>\<open>WORKING_DIR\<close> as its first argument. On S3
  the request returns at most 1000 keys (the default \<^verbatim>\<open>MaxKeys\<close>; the source asks for one
  page only), and \<^verbatim>\<open>KeyCount\<close> is their number.
\<close>

definition list_files :: "string \<Rightarrow> store \<Rightarrow> string \<Rightarrow> string list" where
  "list_files working_dir st name =
     (case s3_path_patt working_dir of
        Some (bucket, prefix0) \<Rightarrow>
          (let prefix1 = prefix0 @ name;
               contents = take 1000
                 (map (\<lambda>((b, k), body). k)
                   (filter (\<lambda>((b, k), body). b = bucket \<and> prefix prefix1 k) (s3_objects st)))
           in if length contents = 0 then []
              else map (\<lambda>k. ''s3:'' @ bucket @ ''/'' @ k) contents)
      | None \<Rightarrow>
          map (path_join working_dir) (filter (prefix name) (listdir st working_dir)))"

text \<open>\<^verbatim>\<open>_get_file(file_path)\<close>.\<close>

definition get_file :: "store \<Rightarrow> string \<Rightarrow> error + string" where
  "get_file st file_path =
     (case s3_path_patt file_path of
        Some (bucket, key) \<Rightarrow>
          (case map_of (s3_objects st) (bucket, key) of
             None \<Rightarrow> Inl NoSuchKey | Some body \<Rightarrow> Inr body)
      | None \<Rightarrow>
          (case map_of (local_files st) file_path of
             None \<Rightarrow> Inl FileNotFoundError | Some content \<Rightarrow> Inr content))"

text \<open>
  \<^verbatim>\<open>_put_file(file_path, content)\<close>: an existing object or file is overwritten in place, a
  new one is added.
\<close>

definition put_file :: "store \<Rightarrow> string \<Rightarrow> string \<Rightarrow> store" where
  "put_file st file_path content =
     (case s3_path_patt file_path of
        Some (bucket, key) \<Rightarrow>
          st\<lparr>s3_objects := AList.update (bucket, key) content (s3_objects st)\<rparr>
      | None \<Rightarrow>
          st\<lparr>local_files := AList.update file_path content (local_files st)\<rparr>)"

section \<open>Render cache pipeline: selecting the artifact\<close>

text \<open>
  The loop of \<^verbatim>\<open>get_json_content\<close> that selects the file, with its two variables
  \<^verbatim>\<open>file_path\<close> and \<^verbatim>\<open>is_json\<close> as the accumulator:
  \<^verbatim>\<open>
    for option in _list_files(name):
        if option.endswith('.json') and not regenerate:
            file_path = option; is_json = True; break
        elif option.endswith('.pkl'):
            file_path = option
  \<close>
\<close>

fun select_loop :: "bool \<Rightarrow> string list \<Rightarrow> string option \<times> bool \<Rightarrow> string option \<times> bool" where
  "select_loop regenerate [] (file_path, is_json) = (file_path, is_json)"
| "select_loop regenerate (option # options) (file_path, is_json) =
     (if suffix ''.json'' option \<and> \<not> regenerate then (Some option, True)
      else if suffix ''.pkl'' option then select_loop regenerate options (Some option, is_json)
      else select_loop regenerate options (file_path, is_json))"

definition select_file :: "bool \<Rightarrow> string list \<Rightarrow> string option \<times> bool" where
  "select_file regenerate options = select_loop regenerate options (None, False)"

section \<open>Process configuration, requests and collaborators\<close>

text \<open>
  The module-level configuration: \<^verbatim>\<open>None\<close> until the main block sets it from the command
  line.
\<close>

record config =
  WORKING_DIR :: "string option"
  CURATION_TAG :: pyval
  CURATOR_EMAIL :: pyval

text \<open>
  What the view functions read from Flask's \<^verbatim>\<open>request\<close>: the query arguments, the parsed
  JSON body (\<open>PNone\<close> when there is none), the peer address and the root URL.
\<close>

record request =
  args :: "(string \<times> string) list"
  json :: pyval
  remote_addr :: pyval
  url_root :: string

text \<open>\<^verbatim>\<open>request.args.get(k, default)\<close> and \<^verbatim>\<open>d.get(k)\<close> of a dictionary.\<close>

definition args_get :: "(string \<times> string) list \<Rightarrow> string \<Rightarrow> string \<Rightarrow> string" where
  "args_get a k dflt = (case map_of a k of None \<Rightarrow> dflt | Some v \<Rightarrow> v)"

definition dict_get :: "(string \<times> pyval) list \<Rightarrow> string \<Rightarrow> pyval" where
  "dict_get d k = (case map_of d k of None \<Rightarrow> PNone | Some v \<Rightarrow> v)"

text \<open>
  An INDRA statement as far as the service looks into it: its list of evidence and the value
  of \<^verbatim>\<open>get_hash()\<close>. Whatever else a statement holds is the extension of the record.
\<close>

record 'e statement =
  evidence :: "'e list"
  get_hash :: int

text \<open>
  The curation cache \<^verbatim>\<open>CURATIONS['cache']\<close>: a dictionary from the pair of hashes to the
  list of curation dictionaries, in insertion order.
\<close>

type_synonym curation_cache = "((int \<times> int) \<times> (string \<times> pyval) list list) list"

text \<open>
  The functions of Python and of the libraries that the service calls but does not define.
  Each is a parameter, so that every theorem holds for whatever they compute; each may raise.
  \<^item> \<open>py_int\<close>: the builtin \<^verbatim>\<open>int(x)\<close>;
  \<^item> \<open>pickle_loads\<close>, \<open>json_loads\<close>, \<open>json_dumps\<close> (the latter with \<^verbatim>\<open>indent=2\<close>);
  \<^item> \<open>make_json_model stmts db_rest_url curation_dict\<close>:
    \<^verbatim>\<open>HtmlAssembler(stmts, title='INDRA Curation', db_rest_url=..., curation_dict=...)
      .make_json_model()\<close>, an ordered dictionary from group keys to dictionaries;
  \<^item> \<open>format_evidence_text\<close>, \<open>format_stmt_text\<close>: INDRA's \<^verbatim>\<open>_format_evidence_text\<close> and
    \<^verbatim>\<open>_format_stmt_text\<close>;
  \<^item> \<open>submit_curation pa_hash tag curator ip text source_hash source_api\<close>:
    \<^verbatim>\<open>indra_db.client.submit_curation\<close>, which returns the id of the new row or raises.
\<close>

record ('e, 'z) collaborators =
  py_int :: "pyval \<Rightarrow> error + int"
  pickle_loads :: "string \<Rightarrow> error + ('e, 'z) statement_scheme list"
  json_loads :: "string \<Rightarrow> error + pyval"
  json_dumps :: "pyval \<Rightarrow> error + string"
  make_json_model ::
    "('e, 'z) statement_scheme list \<Rightarrow> string \<Rightarrow> curation_cache
       \<Rightarrow> error + (pyval \<times> (string \<times> pyval) list) list"
  format_evidence_text :: "('e, 'z) statement_scheme \<Rightarrow> curation_cache \<Rightarrow> error + pyval"
  format_stmt_text :: "('e, 'z) statement_scheme \<Rightarrow> error + pyval"
  submit_curation ::
    "int \<Rightarrow> pyval \<Rightarrow> pyval \<Rightarrow> pyval \<Rightarrow> pyval \<Rightarrow> int \<Rightarrow> pyval \<Rightarrow> error + int"

section \<open>Listing the logical names\<close>

text \<open>
  \<^verbatim>\<open>list_names\<close> (\<^verbatim>\<open>GET /list\<close>). The Python set \<^verbatim>\<open>options\<close> is a list without duplicates;
  the order in which \<^verbatim>\<open>list(options)\<close> enumerates a set is not fixed by Python, here it is
  the order of insertion. \<open>add_option\<close> is the inner loop over the two endings.
\<close>

definition set_add :: "'a \<Rightarrow> 'a list \<Rightarrow> 'a list" where
  "set_add x xs = (if x \<in> set xs then xs else xs @ [x])"

definition add_option :: "string \<Rightarrow> string \<Rightarrow> string list \<Rightarrow> string list" where
  "add_option wd option options =
     foldl (\<lambda>options ending.
              if suffix ending option
              then set_add (replace wd [] (replace ending [] option)) options
              else options)
       options [''.html'', ''.pkl'']"

definition list_names_options :: "string \<Rightarrow> string list \<Rightarrow> string list" where
  "list_names_options wd listing =
     foldl (\<lambda>options option. add_option wd option options) [] listing"

definition list_names :: "config \<Rightarrow> store \<Rightarrow> error + retval" where
  "list_names cfg st =
     (case WORKING_DIR cfg of
        None \<Rightarrow> Inl (AssertionError ''WORKING_DIR is not defined.'')
      | Some wd \<Rightarrow>
          Inr (Jsonify (PList (map PStr (list_names_options wd (list_files wd st []))))))"

section \<open>Render cache pipeline: rendering\<close>

text \<open>
  \<^verbatim>\<open>sorted(stmts, key=lambda s: (len(s.evidence), s.get_hash()), reverse=True)\<close>.
  Python compares the key tuples lexicographically; its sort is stable, and with
  \<^verbatim>\<open>reverse=True\<close> it reverses the list, sorts it stably in ascending order and reverses
  the result, so that statements with equal keys keep their order.
\<close>

definition sort_key_of :: "('e, 'z) statement_scheme \<Rightarrow> nat \<times> int" where
  "sort_key_of s = (length (evidence s), get_hash s)"

definition sorted_reverse :: "('a \<Rightarrow> 'k::linorder) \<Rightarrow> 'a list \<Rightarrow> 'a list" where
  "sorted_reverse key xs = rev (sort_key key (rev xs))"

text \<open>The body of the ungrouped loop: one \<^verbatim>\<open>stmt_dict\<close> per statement, in the order given.\<close>

fun stmt_dicts ::
  "('e, 'z) collaborators \<Rightarrow> curation_cache \<Rightarrow> ('e, 'z) statement_scheme list
     \<Rightarrow> error + pyval list" where
  "stmt_dicts ext cache [] = Inr []"
| "stmt_dicts ext cache (stmt # stmts) =
     (case format_evidence_text ext stmt cache of
        Inl e \<Rightarrow> Inl e
      | Inr ev \<Rightarrow>
          (case format_stmt_text ext stmt of
             Inl e \<Rightarrow> Inl e
           | Inr english \<Rightarrow>
               (case stmt_dicts ext cache stmts of
                  Inl e \<Rightarrow> Inl e
                | Inr rest \<Rightarrow>
                    Inr (PDict [(''evidence'', ev),
                                (''english'', english),
                                (''evidence_count'', PInt (int (length (evidence stmt)))),
                                (''hash'', PStr (str_int (get_hash stmt))),
                                (''source_count'', PNone)] # rest))))"

text \<open>
  The construction of \<^verbatim>\<open>result\<close> in \<^verbatim>\<open>get_json_content\<close>, from the unpickled statements:
  the grouped branch hands the statements to the assembler and stores each group's key in the
  group's dictionary, the ungrouped branch sorts them.
\<close>

definition render ::
  "('e, 'z) collaborators \<Rightarrow> curation_cache \<Rightarrow> string \<Rightarrow> bool
     \<Rightarrow> ('e, 'z) statement_scheme list \<Rightarrow> error + pyval" where
  "render ext cache root grouped stmts =
     (if grouped then
        (case make_json_model ext stmts (butlast root) cache of
           Inl e \<Rightarrow> Inl e
         | Inr ordered_dict \<Rightarrow>
             Inr (PDict [(''stmts'',
                          PList (map (\<lambda>(key, group_dict).
                                        PDict (AList.update ''key'' key group_dict))
                                   ordered_dict)),
                         (''grouped'', PBool grouped)]))
      else
        (case stmt_dicts ext cache (sorted_reverse sort_key_of stmts) of
           Inl e \<Rightarrow> Inl e
         | Inr ds \<Rightarrow> Inr (PDict [(''stmts'', PList ds), (''grouped'', PBool grouped)])))"

text \<open>The text of the 400 response for a name without artifacts.\<close>

definition invalid_name_message :: "string \<Rightarrow> string \<Rightarrow> string" where
  "invalid_name_message name wd =
     ''Invalid name: neither '' @ name @ ''.pkl nor '' @ name @ ''.json exists in '' @ wd
     @ ''. If using s3 directory, remember to add the '' @ [CHR 0x27, CHR ''/'', CHR 0x27]
     @ '' to the end for your working directory.''"

text \<open>
  \<^verbatim>\<open>get_json_content(name)\<close> (\<^verbatim>\<open>GET /json/<name>\<close>): the result of the view and the blob
  store after it. The curation cache is only read.
\<close>

definition get_json_content ::
  "config \<Rightarrow> ('e, 'z) collaborators \<Rightarrow> store \<Rightarrow> curation_cache \<Rightarrow> request \<Rightarrow> string
     \<Rightarrow> (error + retval) \<times> store" where
  "get_json_content cfg ext st cache req name =
     (case WORKING_DIR cfg of
        None \<Rightarrow> (Inl (AssertionError ''WORKING_DIR is not defined.''), st)
      | Some wd \<Rightarrow>
          (let regenerate = (args_get (args req) ''regen'' ''false'' = ''true'');
               grouped = (args_get (args req) ''grouped'' ''false'' = ''true'')
           in case select_file regenerate (list_files wd st name) of
                (None, is_json) \<Rightarrow> (Inl (HTTPException 400 (invalid_name_message name wd)), st)
              | (Some file_path, is_json) \<Rightarrow>
                  (case get_file st file_path of
                     Inl e \<Rightarrow> (Inl e, st)
                   | Inr raw_content \<Rightarrow>
                       if is_json then
                         (case json_loads ext raw_content of
                            Inl e \<Rightarrow> (Inl e, st)
                          | Inr doc \<Rightarrow> (Inr (Jsonify doc), st))
                       else
                         (case pickle_loads ext raw_content of
                            Inl e \<Rightarrow> (Inl e, st)
                          | Inr stmts \<Rightarrow>
                              (case render ext cache (url_root req) grouped stmts of
                                 Inl e \<Rightarrow> (Inl e, st)
                               | Inr result \<Rightarrow>
                                   (case json_dumps ext result of
                                      Inl e \<Rightarrow> (Inl e, st)
                                    | Inr text \<Rightarrow>
                                        (Inr (Jsonify result),
                                         put_file st (replace ''.pkl'' ''.json'' file_path)
                                           text)))))))"

section \<open>Curation pull-through cache\<close>

text \<open>
  The module-level dictionary \<^verbatim>\<open>CURATIONS = {'last_updated': None, 'cache': {}}\<close>.
  \<open>refresh_calls\<close> is not a variable of the program: it counts the calls of
  \<^verbatim>\<open>update_curations\<close>, so that theorems can say how often a view refreshes.
\<close>

record curations =
  last_updated :: "int option"
  cache :: curation_cache
  refresh_calls :: nat

definition CURATIONS_initial :: curations where
  "CURATIONS_initial = \<lparr>last_updated = None, cache = [], refresh_calls = 0\<rparr>"

text \<open>
  A row of the database table \<^verbatim>\<open>Curation\<close>, with the attributes the service reads. The
  two hashes are the integers of which the cache key is made.
\<close>

record curation =
  cur_tag :: pyval
  cur_text :: pyval
  cur_curator :: pyval
  cur_source :: pyval
  cur_ip :: pyval
  cur_date :: pyval
  cur_id :: pyval
  cur_pa_hash :: int
  cur_source_hash :: int

text \<open>\<^verbatim>\<open>cache.get(key, [])\<close>, and the two statements
  \<^verbatim>\<open>if key not in cache: cache[key] = []\<close> and \<^verbatim>\<open>cache[key].append(entry)\<close>.\<close>

definition cache_get :: "curation_cache \<Rightarrow> int \<times> int \<Rightarrow> (string \<times> pyval) list list" where
  "cache_get c key = (case map_of c key of None \<Rightarrow> [] | Some v \<Rightarrow> v)"

definition cache_append ::
  "int \<times> int \<Rightarrow> (string \<times> pyval) list \<Rightarrow> curation_cache \<Rightarrow> curation_cache" where
  "cache_append key entry c =
     (let c1 = (if map_of c key = None then c @ [(key, [])] else c)
      in AList.update key (cache_get c1 key @ [entry]) c1)"

text \<open>The dictionary \<^verbatim>\<open>cur_dict\<close> that \<^verbatim>\<open>update_curations\<close> builds from a row with \<^verbatim>\<open>attr_maps\<close>.\<close>

definition cur_dict :: "curation \<Rightarrow> (string \<times> pyval) list" where
  "cur_dict c =
     [(''error_type'', cur_tag c), (''comment'', cur_text c), (''email'', cur_curator c),
      (''source'', cur_source c), (''ip'', cur_ip c), (''date'', cur_date c),
      (''id'', cur_id c), (''stmt_hash'', PInt (cur_pa_hash c)),
      (''source_hash'', PInt (cur_source_hash c))]"

text \<open>
  \<^verbatim>\<open>update_curations()\<close>. \<open>db\<close> is what \<^verbatim>\<open>get_db('primary').select_all(db.Curation)\<close> gives
  at this moment (the rows, or the exception of the database client), \<open>t\<close> is the value of
  \<^verbatim>\<open>datetime.now()\<close> at the end. The cache is emptied before the database is asked.
\<close>

definition update_curations ::
  "error + curation list \<Rightarrow> int \<Rightarrow> curations \<Rightarrow> (error + unit) \<times> curations" where
  "update_curations db t C =
     (let C1 = C\<lparr>cache := [], refresh_calls := Suc (refresh_calls C)\<rparr>
      in case db of
           Inl e \<Rightarrow> (Inl e, C1)
         | Inr rows \<Rightarrow>
             (Inr (),
              C1\<lparr>cache := foldl (\<lambda>c row. cache_append (cur_pa_hash row, cur_source_hash row)
                                            (cur_dict row) c) [] rows,
                 last_updated := Some t\<rparr>))"

text \<open>
  The staleness check shared by both reading views:
  \<^verbatim>\<open>
    time_since_update = datetime.now() - CURATIONS['last_updated']
    if time_since_update.total_seconds() > 3600:
        update_curations()
  \<close>
  \<open>now\<close> is the clock at the check. Subtracting \<^verbatim>\<open>None\<close> from a \<^verbatim>\<open>datetime\<close> raises
  \<^verbatim>\<open>TypeError\<close>. \<^verbatim>\<open>total_seconds()\<close> is the difference in microseconds divided by \<open>10\<^sup>6\<close>,
  so it exceeds 3600 exactly when the difference exceeds 3600000000 microseconds.
\<close>

definition refresh_if_stale ::
  "int \<Rightarrow> error + curation list \<Rightarrow> int \<Rightarrow> curations \<Rightarrow> (error + unit) \<times> curations" where
  "refresh_if_stale now db t C =
     (case last_updated C of
        None \<Rightarrow> (Inl TypeError, C)
      | Some lu \<Rightarrow>
          if now - lu > 3600000000 then update_curations db t C else (Inr (), C))"

text \<open>
  \<^verbatim>\<open>get_curation(stmt_hash, ev_hash)\<close> (\<^verbatim>\<open>GET /curations/<stmt_hash>/<ev_hash>\<close>):
  the staleness check, then the lookup of the key \<^verbatim>\<open>(int(stmt_hash), int(ev_hash))\<close>.
\<close>

definition curation_answer ::
  "('e, 'z) collaborators \<Rightarrow> curation_cache \<Rightarrow> string \<Rightarrow> string \<Rightarrow> error + retval" where
  "curation_answer ext c stmt_hash ev_hash =
     (case py_int ext (PStr stmt_hash) of
        Inl e \<Rightarrow> Inl e
      | Inr sh \<Rightarrow>
          (case py_int ext (PStr ev_hash) of
             Inl e \<Rightarrow> Inl e
           | Inr eh \<Rightarrow> Inr (Jsonify (PList (map PDict (cache_get c (sh, eh)))))))"

definition get_curation ::
  "('e, 'z) collaborators \<Rightarrow> int \<Rightarrow> error + curation list \<Rightarrow> int \<Rightarrow> curations
     \<Rightarrow> string \<Rightarrow> string \<Rightarrow> (error + retval) \<times> curations" where
  "get_curation ext now db t C stmt_hash ev_hash =
     (case refresh_if_stale now db t C of
        (Inl e, C1) \<Rightarrow> (Inl e, C1)
      | (Inr u, C1) \<Rightarrow> (curation_answer ext (cache C1) stmt_hash ev_hash, C1))"

text \<open>\<^verbatim>\<open>get_curation_list()\<close> (\<^verbatim>\<open>GET /curations\<close>).\<close>

definition curation_list_of :: "curation_cache \<Rightarrow> pyval" where
  "curation_list_of c =
     PList (map (\<lambda>((a, b), v).
                   PDict [(''key'', PList [PStr (str_int a), PStr (str_int b)]),
                          (''value'', PList (map PDict v))]) c)"

definition get_curation_list ::
  "int \<Rightarrow> error + curation list \<Rightarrow> int \<Rightarrow> curations \<Rightarrow> (error + retval) \<times> curations" where
  "get_curation_list now db t C =
     (case refresh_if_stale now db t C of
        (Inl e, C1) \<Rightarrow> (Inl e, C1)
      | (Inr u, C1) \<Rightarrow> (Inr (Jsonify (curation_list_of (cache C1))), C1))"

text \<open>\<^verbatim>\<open>update_curations_endpoint()\<close> (\<^verbatim>\<open>POST /curations/update_cache\<close>): no \<^verbatim>\<open>return\<close>.\<close>

definition update_curations_endpoint ::
  "error + curation list \<Rightarrow> int \<Rightarrow> curations \<Rightarrow> (error + retval) \<times> curations" where
  "update_curations_endpoint db t C =
     (case update_curations db t C of
        (Inl e, C1) \<Rightarrow> (Inl e, C1)
      | (Inr u, C1) \<Rightarrow> (Inr ReturnsNone, C1))"

text \<open>
  \<^verbatim>\<open>submit_curation_to_db()\<close> (\<^verbatim>\<open>POST /curations/submit\<close>). \<open>now\<close> is the value of
  \<^verbatim>\<open>datetime.now()\<close> for the entry. A body that is not a JSON object has no \<^verbatim>\<open>get\<close>. Only
  \<^verbatim>\<open>BadHashError\<close> is caught; any other exception of the collaborator propagates.
  \<open>submitted_entry\<close> is the dictionary \<^verbatim>\<open>entry\<close>: a copy of the body, updated with
  \<^verbatim>\<open>id\<close>, \<^verbatim>\<open>ip\<close>, \<^verbatim>\<open>email\<close>, \<^verbatim>\<open>source\<close> and \<^verbatim>\<open>date\<close> in this order.
\<close>

definition submitted_entry ::
  "config \<Rightarrow> int \<Rightarrow> request \<Rightarrow> (string \<times> pyval) list \<Rightarrow> int \<Rightarrow> (string \<times> pyval) list" where
  "submitted_entry cfg now req body dbid =
     AList.update ''date'' (PDate now)
       (AList.update ''source'' (CURATION_TAG cfg)
       (AList.update ''email'' (CURATOR_EMAIL cfg)
       (AList.update ''ip'' (remote_addr req)
       (AList.update ''id'' (PInt dbid) body))))"

definition submit_curation_to_db ::
  "config \<Rightarrow> ('e, 'z) collaborators \<Rightarrow> int \<Rightarrow> curations \<Rightarrow> request
     \<Rightarrow> (error + retval) \<times> curations" where
  "submit_curation_to_db cfg ext now C req =
     (case json req of
        PDict body \<Rightarrow>
          (case py_int ext (dict_get body ''stmt_hash'') of
             Inl e \<Rightarrow> (Inl e, C)
           | Inr pa_hash \<Rightarrow>
               (case py_int ext (dict_get body ''source_hash'') of
                  Inl e \<Rightarrow> (Inl e, C)
                | Inr source_hash \<Rightarrow>
                    (let text = dict_get body ''comment'';
                         tag = dict_get body ''error_type'';
                         source_api = CURATION_TAG cfg;
                         ip = remote_addr req
                     in case submit_curation ext pa_hash tag (CURATOR_EMAIL cfg) ip text
                               source_hash source_api of
                          Inl (BadHashError mk_hash) \<Rightarrow>
                            (Inl (HTTPException 400
                                   (''Invalid hash: '' @ str_int mk_hash @ ''.'')), C)
                        | Inl e \<Rightarrow> (Inl e, C)
                        | Inr dbid \<Rightarrow>
                            (let key = (pa_hash, source_hash);
                                 entry = submitted_entry cfg now req body dbid;
                                 res = PDict [(''result'', PStr ''success''),
                                              (''ref'', PDict [(''id'', PInt dbid)])]
                             in (Inr (Jsonify res),
                                 C\<lparr>cache := cache_append key entry (cache C)\<rparr>)))))
      | _ \<Rightarrow> (Inl AttributeError, C))"

section \<open>A sample environment\<close>

text \<open>
  One concrete choice of collaborators, used to run the views on concrete requests.
  \<open>decimal_int\<close> agrees with \<^verbatim>\<open>int(x)\<close> on integers, booleans, \<^verbatim>\<open>None\<close>, containers and plain
  decimal strings. The sample unpickler knows one pickle, holding three statements with
  3, 1 and 3 pieces of evidence and the hashes 10, 5 and 20; the sample JSON codec knows
  three documents, each with one text; the sample database client knows the statement hash
  111 only.
\<close>

definition digit_val :: "char \<Rightarrow> nat option" where
  "digit_val c =
     map_of [(CHR ''0'', 0), (CHR ''1'', 1), (CHR ''2'', 2), (CHR ''3'', 3), (CHR ''4'', 4),
             (CHR ''5'', 5), (CHR ''6'', 6), (CHR ''7'', 7), (CHR ''8'', 8), (CHR ''9'', 9)] c"

fun parse_digits :: "nat \<Rightarrow> string \<Rightarrow> nat option" where
  "parse_digits acc [] = Some acc"
| "parse_digits acc (c # cs) =
     (case digit_val c of None \<Rightarrow> None | Some d \<Rightarrow> parse_digits (10 * acc + d) cs)"

definition decimal_int :: "pyval \<Rightarrow> error + int" where
  "decimal_int v =
     (case v of
        PInt n \<Rightarrow> Inr n
      | PBool b \<Rightarrow> Inr (if b then 1 else 0)
      | PStr s \<Rightarrow>
          (if s = [] \<or> s = ''-'' then Inl ValueError
           else if hd s = CHR ''-'' then
             (case parse_digits 0 (tl s) of None \<Rightarrow> Inl ValueError | Some n \<Rightarrow> Inr (- int n))
           else
             (case parse_digits 0 s of None \<Rightarrow> Inl ValueError | Some n \<Rightarrow> Inr (int n)))
      | _ \<Rightarrow> Inl TypeError)"

definition sample_stmts :: "unit statement list" where
  "sample_stmts =
     [\<lparr>evidence = [(), (), ()], get_hash = 10\<rparr>,
      \<lparr>evidence = [()], get_hash = 5\<rparr>,
      \<lparr>evidence = [(), (), ()], get_hash = 20\<rparr>]"

definition sample_view :: "int \<Rightarrow> string \<Rightarrow> pyval" where
  "sample_view n h =
     PDict [(''evidence'', PList []), (''english'', PStr ''Statement''),
            (''evidence_count'', PInt n), (''hash'', PStr h), (''source_count'', PNone)]"

definition sample_document :: pyval where
  "sample_document =
     PDict [(''stmts'', PList [sample_view 3 ''20'', sample_view 3 ''10'', sample_view 1 ''5'']),
            (''grouped'', PBool False)]"

definition sample_json :: "(string \<times> pyval) list" where
  "sample_json =
     [(''{stmts: [], grouped: false}'',
       PDict [(''stmts'', PList []), (''grouped'', PBool False)]),
      (''{stmts: [], grouped: true}'',
       PDict [(''stmts'', PList []), (''grouped'', PBool True)]),
      (''{stmts: [20, 10, 5], grouped: false}'', sample_document)]"

definition sample_ext :: "(unit, unit) collaborators" where
  "sample_ext =
     \<lparr>py_int = decimal_int,
      pickle_loads = (\<lambda>s. if s = ''sample pickle'' then Inr sample_stmts
                           else Inl (ExternalError ''UnpicklingError'')),
      json_loads = (\<lambda>s. case map_of sample_json s of
                           None \<Rightarrow> Inl ValueError | Some v \<Rightarrow> Inr v),
      json_dumps = (\<lambda>v. case map_of (map (\<lambda>(s, v). (v, s)) sample_json) v of
                           None \<Rightarrow> Inl TypeError | Some s \<Rightarrow> Inr s),
      make_json_model = (\<lambda>stmts root c. Inr []),
      format_evidence_text = (\<lambda>stmt c. Inr (PList [])),
      format_stmt_text = (\<lambda>stmt. Inr (PStr ''Statement'')),
      submit_curation = (\<lambda>pa_hash tag curator ip text source_hash source_api.
                           if pa_hash = 111 then Inr 7 else Inl (BadHashError pa_hash))\<rparr>"

definition sample_cfg :: config where
  "sample_cfg =
     \<lparr>WORKING_DIR = Some ''data/'', CURATION_TAG = PStr ''demo'',
      CURATOR_EMAIL = PStr ''curator@example.org''\<rparr>"

definition sample_submission :: "int \<Rightarrow> request" where
  "sample_submission stmt_hash =
     \<lparr>args = [],
      json = PDict [(''stmt_hash'', PInt stmt_hash), (''source_hash'', PInt 222),
                    (''comment'', PStr ''wrong agent''), (''error_type'', PStr ''grounding'')],
      remote_addr = PStr ''10.0.0.1'',
      url_root = ''http://localhost:5000/''\<rparr>"

definition sample_get :: "(string \<times> string) list \<Rightarrow> request" where
  "sample_get a =
     \<lparr>args = a, json = PNone, remote_addr = PStr ''10.0.0.1'',
      url_root = ''http://localhost:5000/''\<rparr>"

text \<open>
  Sample states. \<open>sample_loaded\<close> is a cache that was loaded at time 0 and holds one curation
  for the key \<open>(111, 222)\<close>; \<open>sample_row\<close> is a row of the database. The stores hold: a raw
  and a rendered artifact of one name; a raw artifact alone; a raw artifact that is no
  pickle; a raw artifact next to the rendered artifact of a longer name; a raw artifact whose
  name has \<^verbatim>\<open>.pkl\<close> in its middle, alone and next to the rendered artifact of another name.
\<close>

definition sample_loaded :: curations where
  "sample_loaded =
     \<lparr>last_updated = Some 0,
      cache = [((111, 222), [[(''id'', PInt 3), (''comment'', PStr ''earlier'')]])],
      refresh_calls = 1\<rparr>"

definition sample_row :: curation where
  "sample_row =
     \<lparr>cur_tag = PStr ''grounding'', cur_text = PStr ''wrong agent'',
      cur_curator = PStr ''curator@example.org'', cur_source = PStr ''demo'',
      cur_ip = PStr ''10.0.0.1'', cur_date = PDate 5, cur_id = PInt 7,
      cur_pa_hash = 111, cur_source_hash = 222\<rparr>"

definition store_rendered :: store where
  "store_rendered =
     \<lparr>s3_objects = [],
      local_files = [(''data/a.pkl'', ''sample pickle''),
                     (''data/a.json'', ''{stmts: [], grouped: false}'')]\<rparr>"

definition store_raw :: store where
  "store_raw = \<lparr>s3_objects = [], local_files = [(''data/all.pkl'', ''sample pickle'')]\<rparr>"

definition store_corrupt :: store where
  "store_corrupt = \<lparr>s3_objects = [], local_files = [(''data/bad.pkl'', ''garbage'')]\<rparr>"

definition store_longer_name :: store where
  "store_longer_name =
     \<lparr>s3_objects = [],
      local_files = [(''data/stmts.pkl'', ''sample pickle''),
                     (''data/stmts_v2.json'', ''{stmts: [], grouped: false}'')]\<rparr>"

definition store_inner_pkl :: store where
  "store_inner_pkl =
     \<lparr>s3_objects = [], local_files = [(''data/all.pkl.v2.pkl'', ''sample pickle'')]\<rparr>"

definition store_json_only :: store where
  "store_json_only =
     \<lparr>s3_objects = [],
      local_files = [(''data/ab.json'', ''{stmts: [], grouped: false}''),
                     (''data/a.pklb.pkl'', ''sample pickle'')]\<rparr>"

text \<open>
  A candidate of the listing is plain for an ending when it is the working directory, a
  stem and the ending, the ending occurs nowhere else in it, and the working directory
  does not occur in the stem. \<open>stem_of\<close> is that stem.
\<close>

definition stem_of :: "string \<Rightarrow> string \<Rightarrow> string \<Rightarrow> string" where
  "stem_of wd ending option = drop (length wd) (take (length option - length ending) option)"

definition plain_artifact :: "string \<Rightarrow> string \<Rightarrow> string \<Rightarrow> bool" where
  "plain_artifact wd ending option \<longleftrightarrow>
     suffix ending option \<and>
     prefix wd (take (length option - length ending) option) \<and>
     \<not> sublist ending (butlast option) \<and>
     (wd = [] \<or> \<not> sublist wd (stem_of wd ending option))"

text \<open>The names that \<^verbatim>\<open>list_names\<close> derives from one candidate of the listing.\<close>

definition derived_names :: "string \<Rightarrow> string \<Rightarrow> string set" where
  "derived_names wd option =
     {replace wd [] (replace e [] option) | e. e \<in> {''.html'', ''.pkl''} \<and> suffix e option}"

text \<open>
  The main block, up to the point where the application starts to serve: the configuration
  is set and \<^verbatim>\<open>update_curations()\<close> runs once. If it raises, the process ends before
  \<^verbatim>\<open>app.run\<close>.
\<close>

definition main_startup :: "error + curation list \<Rightarrow> int \<Rightarrow> error + curations" where
  "main_startup db t =
     (case update_curations db t CURATIONS_initial of
        (Inl e, C) \<Rightarrow> Inl e
      | (Inr u, C) \<Rightarrow> Inr C)"

section \<open>Properties of the artifact selection\<close>

lemma select_loop_json:
  "\<not> regenerate \<Longrightarrow> find (suffix ''.json'') options = Some j \<Longrightarrow>
   select_loop regenerate options acc = (Some j, True)"
  by (induction options arbitrary: acc) (auto split: if_splits)

lemma select_loop_pkl:
  "regenerate \<or> (\<forall>opt \<in> set options. \<not> suffix ''.json'' opt) \<Longrightarrow>
   select_loop regenerate options (file_path, is_json) =
     (case filter (suffix ''.pkl'') options of [] \<Rightarrow> file_path | ps \<Rightarrow> Some (last ps), is_json)"
  by (induction options arbitrary: file_path) (auto split: list.splits)

text \<open>
  Claim C1, as the code has it. The loop leaves at the first candidate that ends in
  \<^verbatim>\<open>.json\<close> when regeneration is not forced, and that candidate is selected and marked as
  already rendered. Otherwise (regeneration is forced, or no candidate ends in \<^verbatim>\<open>.json\<close>)
  every candidate that ends in \<^verbatim>\<open>.pkl\<close> overwrites the selection, so the last one in scan
  order is selected for rendering; with no such candidate nothing is selected.
\<close>

theorem select_file_rule:
  "(\<not> regenerate \<and> (\<exists>opt \<in> set options. suffix ''.json'' opt) \<longrightarrow>
      select_file regenerate options = (find (suffix ''.json'') options, True)) \<and>
   ((regenerate \<or> \<not> (\<exists>opt \<in> set options. suffix ''.json'' opt)) \<and>
      (\<exists>opt \<in> set options. suffix ''.pkl'' opt) \<longrightarrow>
      select_file regenerate options = (Some (last (filter (suffix ''.pkl'') options)), False)) \<and>
   ((regenerate \<or> \<not> (\<exists>opt \<in> set options. suffix ''.json'' opt)) \<and>
      \<not> (\<exists>opt \<in> set options. suffix ''.pkl'' opt) \<longrightarrow>
      select_file regenerate options = (None, False))"
proof (intro conjI impI)
  assume a: "\<not> regenerate \<and> (\<exists>opt \<in> set options. suffix ''.json'' opt)"
  then obtain j where j: "find (suffix ''.json'') options = Some j"
    by (cases "find (suffix ''.json'') options") (auto simp: find_None_iff)
  with a show "select_file regenerate options = (find (suffix ''.json'') options, True)"
    by (simp add: select_file_def select_loop_json)
next
  assume a: "(regenerate \<or> \<not> (\<exists>opt \<in> set options. suffix ''.json'' opt)) \<and>
      (\<exists>opt \<in> set options. suffix ''.pkl'' opt)"
  then have ne: "filter (suffix ''.pkl'') options \<noteq> []"
    by (auto simp: filter_empty_conv)
  from a have "regenerate \<or> (\<forall>opt \<in> set options. \<not> suffix ''.json'' opt)" by blast
  from select_loop_pkl [OF this, of None False] ne
  show "select_file regenerate options = (Some (last (filter (suffix ''.pkl'') options)), False)"
    by (simp add: select_file_def split: list.splits)
next
  assume a: "(regenerate \<or> \<not> (\<exists>opt \<in> set options. suffix ''.json'' opt)) \<and>
      \<not> (\<exists>opt \<in> set options. suffix ''.pkl'' opt)"
  then have e: "filter (suffix ''.pkl'') options = []"
    by (auto simp: filter_empty_conv)
  from a have "regenerate \<or> (\<forall>opt \<in> set options. \<not> suffix ''.json'' opt)" by blast
  from select_loop_pkl [OF this, of None False] e
  show "select_file regenerate options = (None, False)"
    by (simp add: select_file_def)
qed

text \<open>The three cases of the rule at concrete listings.\<close>

theorem select_file_rule_witness:
  "select_file False [''data/a.pkl'', ''data/a.json'', ''data/ab.json'']
     = (Some ''data/a.json'', True) \<and>
   select_file True [''data/a.pkl'', ''data/a.json'', ''data/a_old.pkl'']
     = (Some ''data/a_old.pkl'', False) \<and>
   select_file False [''data/readme.txt''] = (None, False)"
  using select_file_rule [of False "[''data/a.pkl'', ''data/a.json'', ''data/ab.json'']"]
    select_file_rule [of True "[''data/a.pkl'', ''data/a.json'', ''data/a_old.pkl'']"]
    select_file_rule [of False "[''data/readme.txt'']"]
  by (simp add: suffix_to_prefix)

text \<open>
  Claim C1 as stated says that the first \<^verbatim>\<open>.pkl\<close> candidate in scan order is selected. With
  two raw candidates the loop selects the second one.
\<close>

theorem first_pkl_counterexample:
  "select_file False [''data/run.pkl'', ''data/run_v2.pkl''] = (Some ''data/run_v2.pkl'', False) \<and>
   fst (select_file False [''data/run.pkl'', ''data/run_v2.pkl''])
     \<noteq> Some (hd (filter (suffix ''.pkl'') [''data/run.pkl'', ''data/run_v2.pkl'']))"
  by (simp add: select_file_def suffix_to_prefix)

section \<open>Properties of the staleness check\<close>

lemma refresh_calls_update:
  "refresh_calls (snd (update_curations db t C)) = Suc (refresh_calls C)"
  by (simp add: update_curations_def Let_def split: sum.splits)

text \<open>
  The main block leaves \<^verbatim>\<open>last_updated\<close> set before the first request is served, and no
  view resets it.
\<close>

lemma main_startup_loaded: "main_startup db t = Inr C \<Longrightarrow> last_updated C = Some t"
  by (auto simp: main_startup_def update_curations_def Let_def split: sum.splits)

lemma update_curations_keeps_loaded:
  "last_updated C \<noteq> None \<Longrightarrow> last_updated (snd (update_curations db t C)) \<noteq> None"
  by (auto simp: update_curations_def Let_def split: sum.splits)

lemma views_keep_loaded:
  assumes "last_updated C \<noteq> None"
  shows "last_updated (snd (get_curation ext now db t C stmt_hash ev_hash)) \<noteq> None"
    and "last_updated (snd (get_curation_list now db t C)) \<noteq> None"
    and "last_updated (snd (update_curations_endpoint db t C)) \<noteq> None"
    and "last_updated (snd (submit_curation_to_db cfg ext now C req)) \<noteq> None"
proof -
  from assms obtain lu where lu: "last_updated C = Some lu" by auto
  have u: "last_updated (snd (update_curations db t C)) \<noteq> None"
    using assms by (rule update_curations_keeps_loaded)
  then have r: "last_updated (snd (refresh_if_stale now db t C)) \<noteq> None"
    using lu by (simp add: refresh_if_stale_def)
  from r show "last_updated (snd (get_curation ext now db t C stmt_hash ev_hash)) \<noteq> None"
    by (auto simp: get_curation_def split: prod.splits sum.splits)
  from r show "last_updated (snd (get_curation_list now db t C)) \<noteq> None"
    by (auto simp: get_curation_list_def split: prod.splits sum.splits)
  from u show "last_updated (snd (update_curations_endpoint db t C)) \<noteq> None"
    by (auto simp: update_curations_endpoint_def split: prod.splits sum.splits)
  from assms show "last_updated (snd (submit_curation_to_db cfg ext now C req)) \<noteq> None"
    by (auto simp: submit_curation_to_db_def Let_def split: pyval.splits sum.splits error.splits)
qed

text \<open>
  Claim C2, as the code has it. When \<^verbatim>\<open>last_updated\<close> is set, both reading views check the
  age of the cache first. If it exceeds one hour, \<^verbatim>\<open>update_curations\<close> runs exactly once and
  the answer is computed from the cache it leaves (or its exception propagates); otherwise
  it does not run, the state is unchanged and the answer comes from the present cache.
\<close>

theorem staleness_check:
  assumes lu: "last_updated C = Some lu"
  shows "(now - lu > 3600000000 \<longrightarrow>
           get_curation ext now db t C stmt_hash ev_hash =
             (case update_curations db t C of
                (Inl e, C1) \<Rightarrow> (Inl e, C1)
              | (Inr u, C1) \<Rightarrow> (curation_answer ext (cache C1) stmt_hash ev_hash, C1)) \<and>
           get_curation_list now db t C =
             (case update_curations db t C of
                (Inl e, C1) \<Rightarrow> (Inl e, C1)
              | (Inr u, C1) \<Rightarrow> (Inr (Jsonify (curation_list_of (cache C1))), C1)) \<and>
           refresh_calls (snd (get_curation ext now db t C stmt_hash ev_hash)) =
             Suc (refresh_calls C) \<and>
           refresh_calls (snd (get_curation_list now db t C)) = Suc (refresh_calls C)) \<and>
         (now - lu \<le> 3600000000 \<longrightarrow>
           get_curation ext now db t C stmt_hash ev_hash =
             (curation_answer ext (cache C) stmt_hash ev_hash, C) \<and>
           get_curation_list now db t C = (Inr (Jsonify (curation_list_of (cache C))), C))"
proof (intro conjI impI)
  assume stale: "now - lu > 3600000000"
  with lu have r: "refresh_if_stale now db t C = update_curations db t C"
    by (simp add: refresh_if_stale_def)
  show "get_curation ext now db t C stmt_hash ev_hash =
             (case update_curations db t C of
                (Inl e, C1) \<Rightarrow> (Inl e, C1)
              | (Inr u, C1) \<Rightarrow> (curation_answer ext (cache C1) stmt_hash ev_hash, C1))"
    by (simp add: get_curation_def r)
  show "get_curation_list now db t C =
             (case update_curations db t C of
                (Inl e, C1) \<Rightarrow> (Inl e, C1)
              | (Inr u, C1) \<Rightarrow> (Inr (Jsonify (curation_list_of (cache C1))), C1))"
    by (simp add: get_curation_list_def r)
  show "refresh_calls (snd (get_curation ext now db t C stmt_hash ev_hash)) =
             Suc (refresh_calls C)"
    using refresh_calls_update [of db t C]
    by (auto simp: get_curation_def r split: prod.splits sum.splits)
  show "refresh_calls (snd (get_curation_list now db t C)) = Suc (refresh_calls C)"
    using refresh_calls_update [of db t C]
    by (auto simp: get_curation_list_def r split: prod.splits sum.splits)
next
  assume fresh: "now - lu \<le> 3600000000"
  with lu have r: "refresh_if_stale now db t C = (Inr (), C)"
    by (simp add: refresh_if_stale_def)
  show "get_curation ext now db t C stmt_hash ev_hash =
             (curation_answer ext (cache C) stmt_hash ev_hash, C)"
    by (simp add: get_curation_def r)
  show "get_curation_list now db t C = (Inr (Jsonify (curation_list_of (cache C))), C)"
    by (simp add: get_curation_list_def r)
qed

text \<open>A stale and a fresh read of the sample cache, both views.\<close>

theorem staleness_check_witness:
  "last_updated sample_loaded = Some 0 \<and>
   get_curation sample_ext 3600000001 (Inr []) 3600000002 sample_loaded ''111'' ''222'' =
     (Inr (Jsonify (PList [])),
      \<lparr>last_updated = Some 3600000002, cache = [], refresh_calls = 2\<rparr>) \<and>
   get_curation_list 3600000001 (Inr []) 3600000002 sample_loaded =
     (Inr (Jsonify (PList [])),
      \<lparr>last_updated = Some 3600000002, cache = [], refresh_calls = 2\<rparr>) \<and>
   get_curation sample_ext 3600000000 (Inr []) 3600000002 sample_loaded ''111'' ''222'' =
     (Inr (Jsonify (PList [PDict [(''id'', PInt 3), (''comment'', PStr ''earlier'')]])),
      sample_loaded) \<and>
   get_curation_list 3600000000 (Inr []) 3600000002 sample_loaded =
     (Inr (Jsonify (PList [PDict [(''key'', PList [PStr ''111'', PStr ''222'']),
         (''value'', PList [PDict [(''id'', PInt 3), (''comment'', PStr ''earlier'')]])]])),
      sample_loaded)"
proof -
  have lu: "last_updated sample_loaded = Some 0" by (simp add: sample_loaded_def)
  show ?thesis
    using staleness_check [OF lu, of 3600000001 sample_ext "Inr []" 3600000002 "''111''" "''222''"]
      staleness_check [OF lu, of 3600000000 sample_ext "Inr []" 3600000002 "''111''" "''222''"]
    by (simp add: sample_loaded_def update_curations_def curation_answer_def sample_ext_def
        decimal_int_def digit_val_def cache_get_def curation_list_of_def str_int_def
        str_nat.simps digit_char_def)
qed

text \<open>
  Claim C2 as stated says that a cache that was never loaded is refreshed once before the
  answer. In the state the module starts with, \<^verbatim>\<open>last_updated\<close> is \<^verbatim>\<open>None\<close>: both views raise
  \<^verbatim>\<open>TypeError\<close> at the subtraction, and \<^verbatim>\<open>update_curations\<close> is not called.
\<close>

theorem never_loaded_counterexample:
  "last_updated CURATIONS_initial = None \<and>
   get_curation_list 0 (Inr []) 0 CURATIONS_initial = (Inl TypeError, CURATIONS_initial) \<and>
   get_curation sample_ext 0 (Inr []) 0 CURATIONS_initial ''111'' ''222''
     = (Inl TypeError, CURATIONS_initial) \<and>
   refresh_calls (snd (get_curation_list 0 (Inr []) 0 CURATIONS_initial)) = 0"
  by (simp add: get_curation_list_def get_curation_def refresh_if_stale_def CURATIONS_initial_def)

section \<open>Properties of the ungrouped rendering\<close>

lemma sorted_reverse_desc:
  "sorted_wrt (\<lambda>a b. key a \<ge> key b) (sorted_reverse key xs)"
proof -
  have "sorted (map key (sort_key key (rev xs)))" by (rule sorted_sort_key)
  then have "sorted_wrt (\<lambda>a b. key a \<le> key b) (sort_key key (rev xs))"
    by (simp add: sorted_map)
  then show ?thesis
    by (simp add: sorted_reverse_def sorted_wrt_rev)
qed

lemma mset_sorted_reverse: "mset (sorted_reverse key xs) = mset xs"
  by (simp add: sorted_reverse_def)

lemma stmt_dicts_fields:
  "stmt_dicts ext c stmts = Inr ds \<Longrightarrow>
   map (\<lambda>d. case d of PDict kv \<Rightarrow> (dict_get kv ''evidence_count'', dict_get kv ''hash'')
                 | _ \<Rightarrow> (PNone, PNone)) ds =
   map (\<lambda>s. (PInt (int (length (evidence s))), PStr (str_int (get_hash s)))) stmts"
  by (induction stmts arbitrary: ds) (auto simp: dict_get_def split: sum.splits)

text \<open>The ungrouped rendering returns a document whenever both formatters succeed.\<close>

lemma stmt_dicts_total:
  "\<forall>s \<in> set stmts. (\<exists>ev. format_evidence_text ext s c = Inr ev) \<and>
                     (\<exists>en. format_stmt_text ext s = Inr en) \<Longrightarrow>
   \<exists>ds. stmt_dicts ext c stmts = Inr ds"
  by (induction stmts) auto

lemma render_ungrouped_total:
  assumes "\<forall>s \<in> set stmts. (\<exists>ev. format_evidence_text ext s c = Inr ev) \<and>
                     (\<exists>en. format_stmt_text ext s = Inr en)"
  shows "\<exists>result. render ext c root False stmts = Inr result"
proof -
  from assms have "\<forall>s \<in> set (sorted_reverse sort_key_of stmts).
      (\<exists>ev. format_evidence_text ext s c = Inr ev) \<and> (\<exists>en. format_stmt_text ext s = Inr en)"
    by (simp add: sorted_reverse_def)
  from stmt_dicts_total [OF this] show ?thesis
    by (auto simp: render_def)
qed

text \<open>
  Claim C3. A document rendered in ungrouped mode lists one view per statement, in an order
  that is a rearrangement of the statements, sorted by evidence count descending and, among
  equal counts, by hash descending; each view carries the evidence count and the hash (as
  text) of its statement. For the evidence counts 3, 1, 3 with the hashes 10, 5, 20 the order
  is hash 20 (count 3), hash 10 (count 3), hash 5 (count 1).
\<close>

theorem ungrouped_order:
  fixes stmts :: "('e, 'z) statement_scheme list"
  shows "(render ext c root False stmts = Inr result \<longrightarrow>
           (\<exists>ds ordered.
              result = PDict [(''stmts'', PList ds), (''grouped'', PBool False)] \<and>
              mset ordered = mset stmts \<and>
              sorted_wrt (\<lambda>a b. length (evidence a) > length (evidence b) \<or>
                           (length (evidence a) = length (evidence b) \<and>
                            get_hash a \<ge> get_hash b)) ordered \<and>
              map (\<lambda>d. case d of
                          PDict kv \<Rightarrow> (dict_get kv ''evidence_count'', dict_get kv ''hash'')
                        | _ \<Rightarrow> (PNone, PNone)) ds =
                map (\<lambda>s. (PInt (int (length (evidence s))), PStr (str_int (get_hash s))))
                  ordered)) \<and>
         map (\<lambda>s. (length (evidence s), get_hash s))
           (sorted_reverse sort_key_of
              [\<lparr>evidence = [e1, e2, e3], get_hash = 10\<rparr>,
               \<lparr>evidence = [e4], get_hash = 5\<rparr>,
               \<lparr>evidence = [e5, e6, e7], get_hash = 20\<rparr>])
           = [(3, 20), (3, 10), (1, 5)]"
proof (intro conjI impI)
  assume r: "render ext c root False stmts = Inr result"
  let ?ordered = "sorted_reverse sort_key_of stmts"
  from r obtain ds where ds: "stmt_dicts ext c ?ordered = Inr ds"
    and res: "result = PDict [(''stmts'', PList ds), (''grouped'', PBool False)]"
    by (auto simp: render_def split: sum.splits)
  have "sorted_wrt (\<lambda>a b. sort_key_of a \<ge> sort_key_of b) ?ordered"
    by (rule sorted_reverse_desc)
  then have s: "sorted_wrt (\<lambda>a b. length (evidence a) > length (evidence b) \<or>
                  (length (evidence a) = length (evidence b) \<and> get_hash a \<ge> get_hash b))
                ?ordered"
    by (rule sorted_wrt_mono_rel [rotated]) (auto simp: sort_key_of_def)
  from res mset_sorted_reverse [of sort_key_of stmts] s stmt_dicts_fields [OF ds]
  show "\<exists>ds ordered.
              result = PDict [(''stmts'', PList ds), (''grouped'', PBool False)] \<and>
              mset ordered = mset stmts \<and>
              sorted_wrt (\<lambda>a b. length (evidence a) > length (evidence b) \<or>
                           (length (evidence a) = length (evidence b) \<and>
                            get_hash a \<ge> get_hash b)) ordered \<and>
              map (\<lambda>d. case d of
                          PDict kv \<Rightarrow> (dict_get kv ''evidence_count'', dict_get kv ''hash'')
                        | _ \<Rightarrow> (PNone, PNone)) ds =
                map (\<lambda>s. (PInt (int (length (evidence s))), PStr (str_int (get_hash s))))
                  ordered"
    by blast
next
  show "map (\<lambda>s. (length (evidence s), get_hash s))
           (sorted_reverse sort_key_of
              [\<lparr>evidence = [e1, e2, e3], get_hash = 10\<rparr>,
               \<lparr>evidence = [e4], get_hash = 5\<rparr>,
               \<lparr>evidence = [e5, e6, e7], get_hash = 20\<rparr>])
           = [(3, 20), (3, 10), (1, 5)]"
    by (simp add: sorted_reverse_def sort_key_of_def)
qed

text \<open>The sample pickle rendered: the views come in the order of the hashes 20, 10, 5.\<close>

theorem ungrouped_order_witness:
  "render sample_ext [] ''http://localhost:5000/'' False sample_stmts = Inr sample_document \<and>
   (\<exists>ds ordered.
      sample_document = PDict [(''stmts'', PList ds), (''grouped'', PBool False)] \<and>
      mset ordered = mset sample_stmts \<and>
      map (\<lambda>d. case d of
                  PDict kv \<Rightarrow> (dict_get kv ''evidence_count'', dict_get kv ''hash'')
                | _ \<Rightarrow> (PNone, PNone)) ds =
        [(PInt 3, PStr ''20''), (PInt 3, PStr ''10''), (PInt 1, PStr ''5'')] \<and>
      map (\<lambda>d. case d of
                  PDict kv \<Rightarrow> (dict_get kv ''evidence_count'', dict_get kv ''hash'')
                | _ \<Rightarrow> (PNone, PNone)) ds =
        map (\<lambda>s. (PInt (int (length (evidence s))), PStr (str_int (get_hash s)))) ordered)"
proof -
  have r: "render sample_ext [] ''http://localhost:5000/'' False sample_stmts
             = Inr sample_document"
    by (simp add: render_def sorted_reverse_def sort_key_of_def sample_stmts_def sample_ext_def
        sample_document_def sample_view_def str_int_def str_nat.simps digit_char_def)
  from ungrouped_order [THEN conjunct1, rule_format, OF r]
  obtain ds ordered where
    d: "sample_document = PDict [(''stmts'', PList ds), (''grouped'', PBool False)]"
    and m: "mset ordered = mset sample_stmts"
    and v: "map (\<lambda>d. case d of
                  PDict kv \<Rightarrow> (dict_get kv ''evidence_count'', dict_get kv ''hash'')
                | _ \<Rightarrow> (PNone, PNone)) ds =
        map (\<lambda>s. (PInt (int (length (evidence s))), PStr (str_int (get_hash s)))) ordered"
    by blast
  from d have "ds = [sample_view 3 ''20'', sample_view 3 ''10'', sample_view 1 ''5'']"
    by (simp add: sample_document_def)
  then have k: "map (\<lambda>d. case d of
                  PDict kv \<Rightarrow> (dict_get kv ''evidence_count'', dict_get kv ''hash'')
                | _ \<Rightarrow> (PNone, PNone)) ds =
        [(PInt 3, PStr ''20''), (PInt 3, PStr ''10''), (PInt 1, PStr ''5'')]"
    by (simp add: sample_view_def dict_get_def)
  show ?thesis
  proof (intro conjI exI)
    show "render sample_ext [] ''http://localhost:5000/'' False sample_stmts
            = Inr sample_document"
      by (rule r)
    show "sample_document = PDict [(''stmts'', PList ds), (''grouped'', PBool False)]"
      by (rule d)
    show "mset ordered = mset sample_stmts"
      by (rule m)
    show "map (\<lambda>d. case d of
                  PDict kv \<Rightarrow> (dict_get kv ''evidence_count'', dict_get kv ''hash'')
                | _ \<Rightarrow> (PNone, PNone)) ds =
        [(PInt 3, PStr ''20''), (PInt 3, PStr ''10''), (PInt 1, PStr ''5'')]"
      by (rule k)
    show "map (\<lambda>d. case d of
                  PDict kv \<Rightarrow> (dict_get kv ''evidence_count'', dict_get kv ''hash'')
                | _ \<Rightarrow> (PNone, PNone)) ds =
        map (\<lambda>s. (PInt (int (length (evidence s))), PStr (str_int (get_hash s)))) ordered"
      by (rule v)
  qed
qed

section \<open>Properties of the curation submission\<close>

lemma cache_get_append_same:
  "cache_get (cache_append key entry c) key = cache_get c key @ [entry]"
  by (auto simp: cache_append_def cache_get_def Let_def update_conv' map_add_def
      split: option.splits)

lemma cache_get_append_other:
  "k \<noteq> key \<Longrightarrow> cache_get (cache_append key entry c) k = cache_get c k"
  by (auto simp: cache_append_def cache_get_def Let_def update_conv' map_add_def
      split: option.splits)

lemma dict_get_update:
  "dict_get (AList.update k v d) k' = (if k' = k then v else dict_get d k')"
  by (simp add: dict_get_def update_conv')

text \<open>
  Claim C4. When the body is a JSON object whose two hashes convert to integers and the
  submission collaborator raises \<^verbatim>\<open>BadHashError\<close>, the view aborts with status 400 and a
  text that names the hash carried by the exception, and \<^verbatim>\<open>CURATIONS\<close> is exactly as before:
  no key is added and no list is extended.
\<close>

theorem unknown_hash_rejected:
  assumes "json req = PDict body"
    and "py_int ext (dict_get body ''stmt_hash'') = Inr pa_hash"
    and "py_int ext (dict_get body ''source_hash'') = Inr source_hash"
    and "submit_curation ext pa_hash (dict_get body ''error_type'') (CURATOR_EMAIL cfg)
           (remote_addr req) (dict_get body ''comment'') source_hash (CURATION_TAG cfg)
         = Inl (BadHashError mk_hash)"
  shows "submit_curation_to_db cfg ext now C req =
           (Inl (HTTPException 400 (''Invalid hash: '' @ str_int mk_hash @ ''.'')), C)"
  using assms by (simp add: submit_curation_to_db_def)

lemmas sample_request_defs = sample_submission_def sample_ext_def sample_cfg_def dict_get_def
  decimal_int_def

text \<open>A submission for the statement hash 999, which the sample database does not know.\<close>

theorem unknown_hash_rejected_witness:
  "submit_curation_to_db sample_cfg sample_ext 5 sample_loaded (sample_submission 999) =
     (Inl (HTTPException 400 ''Invalid hash: 999.''), sample_loaded)"
proof -
  have 1: "json (sample_submission 999) =
      PDict [(''stmt_hash'', PInt 999), (''source_hash'', PInt 222),
             (''comment'', PStr ''wrong agent''), (''error_type'', PStr ''grounding'')]"
    by (simp add: sample_submission_def)
  have 2: "py_int sample_ext (dict_get [(''stmt_hash'', PInt 999), (''source_hash'', PInt 222),
             (''comment'', PStr ''wrong agent''), (''error_type'', PStr ''grounding'')]
             ''stmt_hash'') = Inr 999"
    by (simp add: sample_request_defs)
  have 3: "py_int sample_ext (dict_get [(''stmt_hash'', PInt 999), (''source_hash'', PInt 222),
             (''comment'', PStr ''wrong agent''), (''error_type'', PStr ''grounding'')]
             ''source_hash'') = Inr 222"
    by (simp add: sample_request_defs)
  have 4: "submit_curation sample_ext 999
        (dict_get [(''stmt_hash'', PInt 999), (''source_hash'', PInt 222),
             (''comment'', PStr ''wrong agent''), (''error_type'', PStr ''grounding'')]
           ''error_type'')
        (CURATOR_EMAIL sample_cfg) (remote_addr (sample_submission 999))
        (dict_get [(''stmt_hash'', PInt 999), (''source_hash'', PInt 222),
             (''comment'', PStr ''wrong agent''), (''error_type'', PStr ''grounding'')]
           ''comment'')
        222 (CURATION_TAG sample_cfg) = Inl (BadHashError 999)"
    by (simp add: sample_request_defs)
  from unknown_hash_rejected [OF 1 2 3 4, of 5 sample_loaded]
  show ?thesis
    by (simp add: str_int_def str_nat.simps digit_char_def)
qed

text \<open>
  Claim C5. When the collaborator returns an id, the view answers with success and appends
  one entry to the list under the key \<open>(pa_hash, source_hash)\<close> (creating the list if the key
  is new). The entry is the request body with the returned id, the submitter's address,
  the curator email, the source tag and the current time. A later
  \<^verbatim>\<open>GET /curations/<pa_hash>/<source_hash>\<close> that finds the cache younger than one hour, and
  therefore does not refresh, returns the list with this entry at its end.
\<close>

theorem submission_visible:
  assumes "json req = PDict body"
    and "py_int ext (dict_get body ''stmt_hash'') = Inr pa_hash"
    and "py_int ext (dict_get body ''source_hash'') = Inr source_hash"
    and "submit_curation ext pa_hash (dict_get body ''error_type'') (CURATOR_EMAIL cfg)
           (remote_addr req) (dict_get body ''comment'') source_hash (CURATION_TAG cfg)
         = Inr dbid"
    and "entry = submitted_entry cfg now req body dbid"
    and "C' = snd (submit_curation_to_db cfg ext now C req)"
  shows "submit_curation_to_db cfg ext now C req =
           (Inr (Jsonify (PDict [(''result'', PStr ''success''),
                                 (''ref'', PDict [(''id'', PInt dbid)])])),
            C\<lparr>cache := cache_append (pa_hash, source_hash) entry (cache C)\<rparr>) \<and>
         dict_get entry ''id'' = PInt dbid \<and>
         dict_get entry ''ip'' = remote_addr req \<and>
         dict_get entry ''email'' = CURATOR_EMAIL cfg \<and>
         dict_get entry ''source'' = CURATION_TAG cfg \<and>
         dict_get entry ''date'' = PDate now \<and>
         cache_get (cache C') (pa_hash, source_hash) =
           cache_get (cache C) (pa_hash, source_hash) @ [entry] \<and>
         (last_updated C = Some lu \<and> now' - lu \<le> 3600000000 \<and>
          py_int ext (PStr stmt_hash) = Inr pa_hash \<and>
          py_int ext (PStr ev_hash) = Inr source_hash \<longrightarrow>
            get_curation ext now' db t C' stmt_hash ev_hash =
              (Inr (Jsonify (PList (map PDict
                 (cache_get (cache C) (pa_hash, source_hash) @ [entry])))), C'))"
proof -
  from assms(1-5) have s: "submit_curation_to_db cfg ext now C req =
           (Inr (Jsonify (PDict [(''result'', PStr ''success''),
                                 (''ref'', PDict [(''id'', PInt dbid)])])),
            C\<lparr>cache := cache_append (pa_hash, source_hash) entry (cache C)\<rparr>)"
    by (simp add: submit_curation_to_db_def Let_def)
  with assms(6) have C': "C' = C\<lparr>cache := cache_append (pa_hash, source_hash) entry (cache C)\<rparr>"
    by simp
  have f: "dict_get entry ''id'' = PInt dbid" "dict_get entry ''ip'' = remote_addr req"
    "dict_get entry ''email'' = CURATOR_EMAIL cfg" "dict_get entry ''source'' = CURATION_TAG cfg"
    "dict_get entry ''date'' = PDate now"
    by (simp_all add: assms(5) submitted_entry_def dict_get_update)
  have c: "cache_get (cache C') (pa_hash, source_hash) =
             cache_get (cache C) (pa_hash, source_hash) @ [entry]"
    by (simp add: C' cache_get_append_same)
  have g: "last_updated C = Some lu \<and> now' - lu \<le> 3600000000 \<and>
          py_int ext (PStr stmt_hash) = Inr pa_hash \<and>
          py_int ext (PStr ev_hash) = Inr source_hash \<longrightarrow>
            get_curation ext now' db t C' stmt_hash ev_hash =
              (Inr (Jsonify (PList (map PDict
                 (cache_get (cache C) (pa_hash, source_hash) @ [entry])))), C')"
  proof
    assume a: "last_updated C = Some lu \<and> now' - lu \<le> 3600000000 \<and>
          py_int ext (PStr stmt_hash) = Inr pa_hash \<and>
          py_int ext (PStr ev_hash) = Inr source_hash"
    then have "refresh_if_stale now' db t C' = (Inr (), C')"
      by (simp add: refresh_if_stale_def C')
    with a c show "get_curation ext now' db t C' stmt_hash ev_hash =
              (Inr (Jsonify (PList (map PDict
                 (cache_get (cache C) (pa_hash, source_hash) @ [entry])))), C')"
      by (simp add: get_curation_def curation_answer_def)
  qed
  from s f c g show ?thesis by simp
qed

text \<open>
  A submission for the key \<open>(111, 222)\<close> at time 5 into the sample cache, then
  \<^verbatim>\<open>GET /curations/111/222\<close> at time 10: the earlier curation and the new one.
\<close>

theorem submission_visible_witness:
  "get_curation sample_ext 10 (Inr []) 11
     (snd (submit_curation_to_db sample_cfg sample_ext 5 sample_loaded (sample_submission 111)))
     ''111'' ''222'' =
   (Inr (Jsonify (PList
      [PDict [(''id'', PInt 3), (''comment'', PStr ''earlier'')],
       PDict [(''stmt_hash'', PInt 111), (''source_hash'', PInt 222),
              (''comment'', PStr ''wrong agent''), (''error_type'', PStr ''grounding''),
              (''id'', PInt 7), (''ip'', PStr ''10.0.0.1''),
              (''email'', PStr ''curator@example.org''), (''source'', PStr ''demo''),
              (''date'', PDate 5)]])),
    snd (submit_curation_to_db sample_cfg sample_ext 5 sample_loaded (sample_submission 111)))"
proof -
  let ?body = "[(''stmt_hash'', PInt 111), (''source_hash'', PInt 222),
             (''comment'', PStr ''wrong agent''), (''error_type'', PStr ''grounding'')]"
  have 1: "json (sample_submission 111) = PDict ?body"
    by (simp add: sample_submission_def)
  have 2: "py_int sample_ext (dict_get ?body ''stmt_hash'') = Inr 111"
    by (simp add: sample_request_defs)
  have 3: "py_int sample_ext (dict_get ?body ''source_hash'') = Inr 222"
    by (simp add: sample_request_defs)
  have 4: "submit_curation sample_ext 111 (dict_get ?body ''error_type'')
        (CURATOR_EMAIL sample_cfg) (remote_addr (sample_submission 111))
        (dict_get ?body ''comment'') 222 (CURATION_TAG sample_cfg) = Inr 7"
    by (simp add: sample_request_defs)
  have 5: "last_updated sample_loaded = Some 0 \<and> (10::int) - 0 \<le> 3600000000 \<and>
          py_int sample_ext (PStr ''111'') = Inr 111 \<and>
          py_int sample_ext (PStr ''222'') = Inr 222"
    by (simp add: sample_loaded_def sample_ext_def decimal_int_def digit_val_def)
  let ?C' = "snd (submit_curation_to_db sample_cfg sample_ext 5 sample_loaded
                   (sample_submission 111))"
  let ?entry = "submitted_entry sample_cfg 5 (sample_submission 111) ?body 7"
  from submission_visible [OF 1 2 3 4 refl refl, where C = sample_loaded and now = 5
      and lu = 0 and now' = 10 and stmt_hash = "''111''" and ev_hash = "''222''"
      and db = "Inr []" and t = 11]
  have "last_updated sample_loaded = Some 0 \<and> (10::int) - 0 \<le> 3600000000 \<and>
          py_int sample_ext (PStr ''111'') = Inr 111 \<and>
          py_int sample_ext (PStr ''222'') = Inr 222 \<longrightarrow>
        get_curation sample_ext 10 (Inr []) 11 ?C' ''111'' ''222'' =
          (Inr (Jsonify (PList (map PDict
             (cache_get (cache sample_loaded) (111, 222) @ [?entry])))), ?C')"
    by blast
  with 5 have g: "get_curation sample_ext 10 (Inr []) 11 ?C' ''111'' ''222'' =
          (Inr (Jsonify (PList (map PDict
             (cache_get (cache sample_loaded) (111, 222) @ [?entry])))), ?C')"
    by blast
  have e: "?entry = [(''stmt_hash'', PInt 111), (''source_hash'', PInt 222),
              (''comment'', PStr ''wrong agent''), (''error_type'', PStr ''grounding''),
              (''id'', PInt 7), (''ip'', PStr ''10.0.0.1''),
              (''email'', PStr ''curator@example.org''), (''source'', PStr ''demo''),
              (''date'', PDate 5)]"
    by (simp add: submitted_entry_def sample_submission_def sample_cfg_def)
  have c: "cache_get (cache sample_loaded) (111, 222)
             = [[(''id'', PInt 3), (''comment'', PStr ''earlier'')]]"
    by (simp add: sample_loaded_def cache_get_def)
  from g show ?thesis
    unfolding e c by simp
qed

section \<open>Properties of the render cache pipeline\<close>

lemmas store_eval = get_json_content_def list_files_def listdir_def dir_entry_def path_join_def
  s3_path_patt_def select_file_def get_file_def put_file_def args_get_def
  List.map_filter_def suffix_to_prefix Let_def

lemmas sample_ext_eval = sample_cfg_def sample_ext_def sample_get_def sample_stmts_def
  sample_json_def sample_document_def sample_view_def render_def sorted_reverse_def
  sort_key_of_def str_int_def str_nat.simps digit_char_def

text \<open>
  Claim C6. When regeneration is not requested and the selection is a rendered artifact,
  the view reads that artifact, deserializes it and returns the document as it is; the blob
  store is unchanged. The result does not depend on the request beyond the absence of
  \<^verbatim>\<open>regen=true\<close>, nor on the curation cache: any two requests for the name that do not force
  regeneration, whatever their \<^verbatim>\<open>grouped\<close> argument, get the same result.
\<close>

theorem cached_document_returned:
  assumes "WORKING_DIR cfg = Some wd"
    and "args_get (args req) ''regen'' ''false'' \<noteq> ''true''"
    and "select_file False (list_files wd st name) = (Some file_path, True)"
  shows "get_json_content cfg ext st c req name =
           (case get_file st file_path of
              Inl e \<Rightarrow> Inl e
            | Inr raw_content \<Rightarrow>
                (case json_loads ext raw_content of
                   Inl e \<Rightarrow> Inl e | Inr doc \<Rightarrow> Inr (Jsonify doc)), st) \<and>
         (\<forall>req' c'. args_get (args req') ''regen'' ''false'' \<noteq> ''true'' \<longrightarrow>
            get_json_content cfg ext st c' req' name = get_json_content cfg ext st c req name)"
  using assms by (simp add: get_json_content_def Let_def split: sum.splits)

text \<open>
  The store with \<^verbatim>\<open>data/a.pkl\<close> and \<^verbatim>\<open>data/a.json\<close>: the stored document is returned for
  \<^verbatim>\<open>grouped=false\<close> and for \<^verbatim>\<open>grouped=true\<close> alike, although it says \<^verbatim>\<open>grouped: false\<close>.
\<close>

theorem cached_document_returned_witness:
  "get_json_content sample_cfg sample_ext store_rendered [] (sample_get []) ''a'' =
     (Inr (Jsonify (PDict [(''stmts'', PList []), (''grouped'', PBool False)])),
      store_rendered) \<and>
   get_json_content sample_cfg sample_ext store_rendered []
       (sample_get [(''grouped'', ''true'')]) ''a'' =
     get_json_content sample_cfg sample_ext store_rendered [] (sample_get []) ''a''"
proof -
  have 1: "WORKING_DIR sample_cfg = Some ''data/''"
    by (simp add: sample_cfg_def)
  have 2: "args_get (args (sample_get [])) ''regen'' ''false'' \<noteq> ''true''"
    by (simp add: sample_get_def args_get_def)
  have 3: "select_file False (list_files ''data/'' store_rendered ''a'')
             = (Some ''data/a.json'', True)"
    by (simp add: store_rendered_def store_eval)
  have 4: "args_get (args (sample_get [(''grouped'', ''true'')])) ''regen'' ''false'' \<noteq> ''true''"
    by (simp add: sample_get_def args_get_def)
  have 5: "(case get_file store_rendered ''data/a.json'' of
              Inl e \<Rightarrow> Inl e
            | Inr raw_content \<Rightarrow>
                (case json_loads sample_ext raw_content of
                   Inl e \<Rightarrow> Inl e | Inr doc \<Rightarrow> Inr (Jsonify doc)))
           = Inr (Jsonify (PDict [(''stmts'', PList []), (''grouped'', PBool False)]))"
    by (simp add: store_rendered_def get_file_def s3_path_patt_def sample_ext_def sample_json_def)
  note t = cached_document_returned [OF 1 2 3, of sample_ext "[]"]
  from t have a: "get_json_content sample_cfg sample_ext store_rendered [] (sample_get []) ''a'' =
     (Inr (Jsonify (PDict [(''stmts'', PList []), (''grouped'', PBool False)])),
      store_rendered)"
    unfolding 5 by blast
  from t 4 have b: "get_json_content sample_cfg sample_ext store_rendered []
       (sample_get [(''grouped'', ''true'')]) ''a'' =
     get_json_content sample_cfg sample_ext store_rendered [] (sample_get []) ''a''"
    by blast
  from a b show ?thesis by blast
qed

text \<open>
  Claim C8. Whenever the view ends in an error (the name has no artifact, the read fails,
  the raw bytes do not unpickle, the assembler or a formatter raises, the document does not
  serialize), the blob store is exactly as it was. The store changes only in a call that
  has built the whole document and its JSON text, and then by the one write of that text.
\<close>

theorem failed_render_writes_nothing:
  "(fst (get_json_content cfg ext st c req name) = Inl e \<longrightarrow>
      snd (get_json_content cfg ext st c req name) = st) \<and>
   (pickle_loads ext raw = Inl e \<and> WORKING_DIR cfg = Some wd \<and>
    select_file (args_get (args req) ''regen'' ''false'' = ''true'') (list_files wd st name)
      = (Some file_path, False) \<and>
    get_file st file_path = Inr raw \<longrightarrow>
      get_json_content cfg ext st c req name = (Inl e, st)) \<and>
   (snd (get_json_content cfg ext st c req name) \<noteq> st \<longrightarrow>
      (\<exists>wd file_path stmts result text.
         WORKING_DIR cfg = Some wd \<and>
         fst (select_file (args_get (args req) ''regen'' ''false'' = ''true'')
               (list_files wd st name)) = Some file_path \<and>
         render ext c (url_root req) (args_get (args req) ''grouped'' ''false'' = ''true'') stmts
           = Inr result \<and>
         json_dumps ext result = Inr text \<and>
         get_json_content cfg ext st c req name =
           (Inr (Jsonify result), put_file st (replace ''.pkl'' ''.json'' file_path) text)))"
proof (intro conjI impI)
  assume "fst (get_json_content cfg ext st c req name) = Inl e"
  then show "snd (get_json_content cfg ext st c req name) = st"
    by (auto simp: get_json_content_def Let_def
        split: option.splits sum.splits prod.splits if_splits)
next
  assume "pickle_loads ext raw = Inl e \<and> WORKING_DIR cfg = Some wd \<and>
    select_file (args_get (args req) ''regen'' ''false'' = ''true'') (list_files wd st name)
      = (Some file_path, False) \<and>
    get_file st file_path = Inr raw"
  then show "get_json_content cfg ext st c req name = (Inl e, st)"
    by (simp add: get_json_content_def Let_def)
next
  assume "snd (get_json_content cfg ext st c req name) \<noteq> st"
  then show "\<exists>wd file_path stmts result text.
         WORKING_DIR cfg = Some wd \<and>
         fst (select_file (args_get (args req) ''regen'' ''false'' = ''true'')
               (list_files wd st name)) = Some file_path \<and>
         render ext c (url_root req) (args_get (args req) ''grouped'' ''false'' = ''true'') stmts
           = Inr result \<and>
         json_dumps ext result = Inr text \<and>
         get_json_content cfg ext st c req name =
           (Inr (Jsonify result), put_file st (replace ''.pkl'' ''.json'' file_path) text)"
    by (auto simp: get_json_content_def Let_def
        split: option.splits sum.splits prod.splits if_splits)
qed

text \<open>
  A raw artifact that does not unpickle: the error is returned and no file is written.
  A raw artifact that renders: the store changes, by the write of the rendered document.
\<close>

theorem failed_render_writes_nothing_witness:
  "get_json_content sample_cfg sample_ext store_corrupt [] (sample_get []) ''bad''
     = (Inl (ExternalError ''UnpicklingError''), store_corrupt) \<and>
   snd (get_json_content sample_cfg sample_ext store_raw [] (sample_get []) ''all'')
     \<noteq> store_raw \<and>
   (\<exists>file_path result text.
      json_dumps sample_ext result = Inr text \<and>
      get_json_content sample_cfg sample_ext store_raw [] (sample_get []) ''all'' =
        (Inr (Jsonify result), put_file store_raw (replace ''.pkl'' ''.json'' file_path) text))"
proof -
  have 1: "pickle_loads sample_ext ''garbage'' = Inl (ExternalError ''UnpicklingError'') \<and>
    WORKING_DIR sample_cfg = Some ''data/'' \<and>
    select_file (args_get (args (sample_get [])) ''regen'' ''false'' = ''true'')
      (list_files ''data/'' store_corrupt ''bad'') = (Some ''data/bad.pkl'', False) \<and>
    get_file store_corrupt ''data/bad.pkl'' = Inr ''garbage''"
    by (simp add: store_corrupt_def sample_cfg_def sample_ext_def sample_get_def store_eval)
  have 2: "snd (get_json_content sample_cfg sample_ext store_raw [] (sample_get []) ''all'')
     \<noteq> store_raw"
    by (simp add: store_raw_def store_eval sample_ext_eval replace.simps)
  note t = failed_render_writes_nothing [of sample_cfg sample_ext _ "[]" "sample_get []"]
  from t [of store_corrupt "''bad''" "ExternalError ''UnpicklingError''" "''garbage''"
      "''data/''" "''data/bad.pkl''"] 1
  have a: "get_json_content sample_cfg sample_ext store_corrupt [] (sample_get []) ''bad''
     = (Inl (ExternalError ''UnpicklingError''), store_corrupt)"
    by blast
  from t [of store_raw "''all''"] 2
  have b: "\<exists>file_path result text.
      json_dumps sample_ext result = Inr text \<and>
      get_json_content sample_cfg sample_ext store_raw [] (sample_get []) ''all'' =
        (Inr (Jsonify result), put_file store_raw (replace ''.pkl'' ''.json'' file_path) text)"
    by blast
  from a 2 b show ?thesis by blast
qed

section \<open>The forced refresh\<close>

text \<open>
  The cache that \<^verbatim>\<open>update_curations\<close> builds from the rows: under every key the dictionaries
  of the rows with that key, in the order of the query; every key of a row once.
\<close>

lemma cache_append_keys:
  "map fst (cache_append key entry c) =
     (if key \<in> set (map fst c) then map fst c else map fst c @ [key])"
  by (auto simp: cache_append_def Let_def update_keys map_of_eq_None_iff)

lemma rebuilt_cache_get:
  "cache_get (foldl (\<lambda>c row. cache_append (cur_pa_hash row, cur_source_hash row)
                                 (cur_dict row) c) c0 rows) k =
   cache_get c0 k @
     map cur_dict (filter (\<lambda>r. (cur_pa_hash r, cur_source_hash r) = k) rows)"
proof (induction rows arbitrary: c0)
  case Nil
  then show ?case by simp
next
  case (Cons r rows)
  show ?case
  proof (cases "(cur_pa_hash r, cur_source_hash r) = k")
    case True
    then have "cache_get (cache_append (cur_pa_hash r, cur_source_hash r) (cur_dict r) c0) k
                 = cache_get c0 k @ [cur_dict r]"
      using cache_get_append_same [of k "cur_dict r" c0] by simp
    with True show ?thesis by (simp add: Cons.IH)
  next
    case False
    then have "cache_get (cache_append (cur_pa_hash r, cur_source_hash r) (cur_dict r) c0) k
                 = cache_get c0 k"
      using cache_get_append_other [of k "(cur_pa_hash r, cur_source_hash r)" "cur_dict r" c0]
      by simp
    with False show ?thesis by (simp add: Cons.IH)
  qed
qed

lemma rebuilt_cache_keys:
  "distinct (map fst c0) \<Longrightarrow>
   distinct (map fst (foldl (\<lambda>c row. cache_append (cur_pa_hash row, cur_source_hash row)
                                 (cur_dict row) c) c0 rows)) \<and>
   set (map fst (foldl (\<lambda>c row. cache_append (cur_pa_hash row, cur_source_hash row)
                                 (cur_dict row) c) c0 rows)) =
     set (map fst c0) \<union> (\<lambda>r. (cur_pa_hash r, cur_source_hash r)) ` set rows"
proof (induction rows arbitrary: c0)
  case Nil
  then show ?case by simp
next
  case (Cons r rows)
  let ?c1 = "cache_append (cur_pa_hash r, cur_source_hash r) (cur_dict r) c0"
  from Cons.prems have d: "distinct (map fst ?c1)"
    by (simp add: cache_append_keys)
  have s: "set (map fst ?c1) = insert (cur_pa_hash r, cur_source_hash r) (set (map fst c0))"
    by (auto simp: cache_append_keys)
  from Cons.IH [OF d] s show ?case by auto
qed

text \<open>
  Claim C9. \<^verbatim>\<open>POST /curations/update_cache\<close> calls \<^verbatim>\<open>update_curations\<close> once and has no
  \<^verbatim>\<open>return\<close>: it never hands a response body to Flask. When the database answers with rows,
  the cache has been rebuilt from them and \<^verbatim>\<open>last_updated\<close> has been stamped, and the value of
  the view is \<^verbatim>\<open>None\<close>: the keys of the new cache are the hash pairs of the rows, and under
  each key stand, in the order of the query, the dictionaries of the rows with that pair,
  each with the nine entries \<^verbatim>\<open>error_type\<close>, \<^verbatim>\<open>comment\<close>, \<^verbatim>\<open>email\<close>, \<^verbatim>\<open>source\<close>, \<^verbatim>\<open>ip\<close>, \<^verbatim>\<open>date\<close>,
  \<^verbatim>\<open>id\<close>, \<^verbatim>\<open>stmt_hash\<close> and \<^verbatim>\<open>source_hash\<close> taken from the row; what the cache held before is
  gone. When the database client raises, its exception propagates.
\<close>

theorem update_endpoint_returns_none:
  "fst (update_curations_endpoint db t C) \<noteq> Inr (Jsonify body) \<and>
   snd (update_curations_endpoint db t C) = snd (update_curations db t C) \<and>
   refresh_calls (snd (update_curations_endpoint db t C)) = Suc (refresh_calls C) \<and>
   (db = Inr rows \<longrightarrow>
      update_curations_endpoint db t C =
        (Inr ReturnsNone,
         \<lparr>last_updated = Some t,
          cache = foldl (\<lambda>c row. cache_append (cur_pa_hash row, cur_source_hash row)
                                   (cur_dict row) c) [] rows,
          refresh_calls = Suc (refresh_calls C)\<rparr>) \<and>
      last_updated (snd (update_curations_endpoint db t C)) = Some t \<and>
      distinct (map fst (cache (snd (update_curations_endpoint db t C)))) \<and>
      set (map fst (cache (snd (update_curations_endpoint db t C)))) =
        (\<lambda>r. (cur_pa_hash r, cur_source_hash r)) ` set rows \<and>
      (\<forall>k. cache_get (cache (snd (update_curations_endpoint db t C))) k =
         map (\<lambda>r. [(''error_type'', cur_tag r), (''comment'', cur_text r),
                    (''email'', cur_curator r), (''source'', cur_source r),
                    (''ip'', cur_ip r), (''date'', cur_date r), (''id'', cur_id r),
                    (''stmt_hash'', PInt (cur_pa_hash r)),
                    (''source_hash'', PInt (cur_source_hash r))])
           (filter (\<lambda>r. (cur_pa_hash r, cur_source_hash r) = k) rows))) \<and>
   (db = Inl e \<longrightarrow> fst (update_curations_endpoint db t C) = Inl e)"
proof -
  let ?rebuilt = "foldl (\<lambda>c row. cache_append (cur_pa_hash row, cur_source_hash row)
                                   (cur_dict row) c) [] rows"
  have a: "fst (update_curations_endpoint db t C) \<noteq> Inr (Jsonify body)"
    by (auto simp: update_curations_endpoint_def update_curations_def Let_def split: sum.splits)
  have b: "snd (update_curations_endpoint db t C) = snd (update_curations db t C)"
    by (auto simp: update_curations_endpoint_def update_curations_def Let_def split: sum.splits)
  have c: "refresh_calls (snd (update_curations_endpoint db t C)) = Suc (refresh_calls C)"
    by (auto simp: update_curations_endpoint_def update_curations_def Let_def split: sum.splits)
  have e: "db = Inl e \<longrightarrow> fst (update_curations_endpoint db t C) = Inl e"
    by (auto simp: update_curations_endpoint_def update_curations_def Let_def split: sum.splits)
  have d: "db = Inr rows \<longrightarrow>
      update_curations_endpoint db t C =
        (Inr ReturnsNone,
         \<lparr>last_updated = Some t, cache = ?rebuilt, refresh_calls = Suc (refresh_calls C)\<rparr>)"
    by (auto simp: update_curations_endpoint_def update_curations_def Let_def split: sum.splits)
  have k: "distinct (map fst ?rebuilt) \<and>
           set (map fst ?rebuilt) = (\<lambda>r. (cur_pa_hash r, cur_source_hash r)) ` set rows"
    using rebuilt_cache_keys [of "[]" rows] by simp
  have g: "\<forall>k. cache_get ?rebuilt k =
         map (\<lambda>r. [(''error_type'', cur_tag r), (''comment'', cur_text r),
                    (''email'', cur_curator r), (''source'', cur_source r),
                    (''ip'', cur_ip r), (''date'', cur_date r), (''id'', cur_id r),
                    (''stmt_hash'', PInt (cur_pa_hash r)),
                    (''source_hash'', PInt (cur_source_hash r))])
           (filter (\<lambda>r. (cur_pa_hash r, cur_source_hash r) = k) rows)"
  proof
    fix k
    have 1: "cache_get ?rebuilt k =
            map cur_dict (filter (\<lambda>r. (cur_pa_hash r, cur_source_hash r) = k) rows)"
      using rebuilt_cache_get [of "[]" rows k] by (simp add: cache_get_def)
    have 2: "map cur_dict (filter (\<lambda>r. (cur_pa_hash r, cur_source_hash r) = k) rows) =
         map (\<lambda>r. [(''error_type'', cur_tag r), (''comment'', cur_text r),
                    (''email'', cur_curator r), (''source'', cur_source r),
                    (''ip'', cur_ip r), (''date'', cur_date r), (''id'', cur_id r),
                    (''stmt_hash'', PInt (cur_pa_hash r)),
                    (''source_hash'', PInt (cur_source_hash r))])
           (filter (\<lambda>r. (cur_pa_hash r, cur_source_hash r) = k) rows)"
      by (simp add: cur_dict_def)
    from 1 2 show "cache_get ?rebuilt k =
         map (\<lambda>r. [(''error_type'', cur_tag r), (''comment'', cur_text r),
                    (''email'', cur_curator r), (''source'', cur_source r),
                    (''ip'', cur_ip r), (''date'', cur_date r), (''id'', cur_id r),
                    (''stmt_hash'', PInt (cur_pa_hash r)),
                    (''source_hash'', PInt (cur_source_hash r))])
           (filter (\<lambda>r. (cur_pa_hash r, cur_source_hash r) = k) rows)"
      by (rule trans)
  qed
  show ?thesis
  proof (intro conjI impI)
    show "fst (update_curations_endpoint db t C) \<noteq> Inr (Jsonify body)" by (rule a)
    show "snd (update_curations_endpoint db t C) = snd (update_curations db t C)" by (rule b)
    show "refresh_calls (snd (update_curations_endpoint db t C)) = Suc (refresh_calls C)"
      by (rule c)
    show "fst (update_curations_endpoint db t C) = Inl e" if "db = Inl e"
      using e that by blast
  next
    assume r: "db = Inr rows"
    with d have u: "update_curations_endpoint db t C =
        (Inr ReturnsNone,
         \<lparr>last_updated = Some t, cache = ?rebuilt, refresh_calls = Suc (refresh_calls C)\<rparr>)"
      by blast
    then show "update_curations_endpoint db t C =
        (Inr ReturnsNone,
         \<lparr>last_updated = Some t, cache = ?rebuilt, refresh_calls = Suc (refresh_calls C)\<rparr>)" .
    from u show "last_updated (snd (update_curations_endpoint db t C)) = Some t" by simp
    from u k show "distinct (map fst (cache (snd (update_curations_endpoint db t C))))"
      by simp
    from u k show "set (map fst (cache (snd (update_curations_endpoint db t C)))) =
        (\<lambda>r. (cur_pa_hash r, cur_source_hash r)) ` set rows"
      by simp
    from u g show "\<forall>k. cache_get (cache (snd (update_curations_endpoint db t C))) k =
         map (\<lambda>r. [(''error_type'', cur_tag r), (''comment'', cur_text r),
                    (''email'', cur_curator r), (''source'', cur_source r),
                    (''ip'', cur_ip r), (''date'', cur_date r), (''id'', cur_id r),
                    (''stmt_hash'', PInt (cur_pa_hash r)),
                    (''source_hash'', PInt (cur_source_hash r))])
           (filter (\<lambda>r. (cur_pa_hash r, cur_source_hash r) = k) rows)"
      by simp
  qed
qed

text \<open>
  A forced refresh of the sample cache from a database with two rows for the key
  \<open>(111, 222)\<close>: the earlier entry is gone, the two rows stand under the key in their order.
\<close>

theorem update_endpoint_returns_none_witness:
  "update_curations_endpoint (Inr [sample_row, sample_row\<lparr>cur_id := PInt 8\<rparr>]) 42 sample_loaded =
     (Inr ReturnsNone,
      \<lparr>last_updated = Some 42,
       cache = [((111, 222),
                 [[(''error_type'', PStr ''grounding''), (''comment'', PStr ''wrong agent''),
                   (''email'', PStr ''curator@example.org''), (''source'', PStr ''demo''),
                   (''ip'', PStr ''10.0.0.1''), (''date'', PDate 5), (''id'', PInt 7),
                   (''stmt_hash'', PInt 111), (''source_hash'', PInt 222)],
                  [(''error_type'', PStr ''grounding''), (''comment'', PStr ''wrong agent''),
                   (''email'', PStr ''curator@example.org''), (''source'', PStr ''demo''),
                   (''ip'', PStr ''10.0.0.1''), (''date'', PDate 5), (''id'', PInt 8),
                   (''stmt_hash'', PInt 111), (''source_hash'', PInt 222)]])],
       refresh_calls = 2\<rparr>) \<and>
   fst (update_curations_endpoint (Inl (ExternalError ''OperationalError'')) 42 sample_loaded)
     = Inl (ExternalError ''OperationalError'')"
  using update_endpoint_returns_none [of "Inr [sample_row, sample_row\<lparr>cur_id := PInt 8\<rparr>]" 42
      sample_loaded _ "[sample_row, sample_row\<lparr>cur_id := PInt 8\<rparr>]"]
    update_endpoint_returns_none [of "Inl (ExternalError ''OperationalError'')" 42 sample_loaded
      _ _ "ExternalError ''OperationalError''"]
  by (simp add: sample_loaded_def sample_row_def cache_append_def cache_get_def cur_dict_def)

section \<open>Rendering once\<close>

text \<open>
  Claim C7 evaluated. First input: the working directory holds the raw artifact of
  \<^verbatim>\<open>stmts\<close> and the rendered artifact of \<^verbatim>\<open>stmts_v2\<close>. The listing for \<^verbatim>\<open>stmts\<close> is every file
  whose name starts with \<^verbatim>\<open>stmts\<close>, so the view returns the document of \<^verbatim>\<open>stmts_v2\<close>; nothing is
  rendered and no \<^verbatim>\<open>data/stmts.json\<close> is written. Second input: the raw artifact
  \<^verbatim>\<open>data/all.pkl.v2.pkl\<close> of the name \<^verbatim>\<open>all.pkl.v2\<close>. The rendered document is written to
  \<^verbatim>\<open>data/all.json.v2.json\<close>, because \<^verbatim>\<open>replace\<close> rewrites both occurrences of \<^verbatim>\<open>.pkl\<close>; the
  second request lists the raw artifact only, selects it again, renders again and writes
  again: asked with \<^verbatim>\<open>grouped=true\<close>, it returns the grouped document, not the stored one.
\<close>

theorem render_once_fails:
  "list_files ''data/'' store_longer_name ''stmts'' = [''data/stmts.pkl'', ''data/stmts_v2.json''] \<and>
   get_json_content sample_cfg sample_ext store_longer_name [] (sample_get []) ''stmts'' =
     (Inr (Jsonify (PDict [(''stmts'', PList []), (''grouped'', PBool False)])),
      store_longer_name) \<and>
   get_file store_longer_name ''data/stmts.json'' = Inl FileNotFoundError \<and>
   get_json_content sample_cfg sample_ext store_inner_pkl [] (sample_get []) ''all.pkl.v2'' =
     (Inr (Jsonify sample_document),
      \<lparr>s3_objects = [],
       local_files = [(''data/all.pkl.v2.pkl'', ''sample pickle''),
                      (''data/all.json.v2.json'', ''{stmts: [20, 10, 5], grouped: false}'')]\<rparr>) \<and>
   select_file False
     (list_files ''data/''
        (snd (get_json_content sample_cfg sample_ext store_inner_pkl [] (sample_get [])
               ''all.pkl.v2''))
        ''all.pkl.v2'')
     = (Some ''data/all.pkl.v2.pkl'', False) \<and>
   get_file (snd (get_json_content sample_cfg sample_ext store_inner_pkl [] (sample_get [])
                   ''all.pkl.v2''))
     ''data/all.pkl.v2.json'' = Inl FileNotFoundError \<and>
   get_json_content sample_cfg sample_ext
     (snd (get_json_content sample_cfg sample_ext store_inner_pkl [] (sample_get [])
            ''all.pkl.v2''))
     [] (sample_get [(''grouped'', ''true'')]) ''all.pkl.v2'' =
     (Inr (Jsonify (PDict [(''stmts'', PList []), (''grouped'', PBool True)])),
      \<lparr>s3_objects = [],
       local_files = [(''data/all.pkl.v2.pkl'', ''sample pickle''),
                      (''data/all.json.v2.json'', ''{stmts: [], grouped: true}'')]\<rparr>)"
proof -
  have a: "list_files ''data/'' store_longer_name ''stmts''
             = [''data/stmts.pkl'', ''data/stmts_v2.json'']"
    by (simp add: store_longer_name_def store_eval)
  have b: "get_json_content sample_cfg sample_ext store_longer_name [] (sample_get []) ''stmts'' =
     (Inr (Jsonify (PDict [(''stmts'', PList []), (''grouped'', PBool False)])),
      store_longer_name)"
    by (simp add: store_longer_name_def store_eval sample_ext_eval)
  have c: "get_file store_longer_name ''data/stmts.json'' = Inl FileNotFoundError"
    by (simp add: store_longer_name_def get_file_def s3_path_patt_def)
  have d: "get_json_content sample_cfg sample_ext store_inner_pkl [] (sample_get [])
             ''all.pkl.v2'' =
     (Inr (Jsonify sample_document),
      \<lparr>s3_objects = [],
       local_files = [(''data/all.pkl.v2.pkl'', ''sample pickle''),
                      (''data/all.json.v2.json'', ''{stmts: [20, 10, 5], grouped: false}'')]\<rparr>)"
    by (simp add: store_inner_pkl_def store_eval sample_ext_eval replace.simps)
  have e: "select_file False
     (list_files ''data/''
        \<lparr>s3_objects = [],
         local_files = [(''data/all.pkl.v2.pkl'', ''sample pickle''),
                      (''data/all.json.v2.json'', ''{stmts: [20, 10, 5], grouped: false}'')]\<rparr>
        ''all.pkl.v2'')
     = (Some ''data/all.pkl.v2.pkl'', False)"
    by (simp add: store_eval)
  have f: "get_file
        \<lparr>s3_objects = [],
         local_files = [(''data/all.pkl.v2.pkl'', ''sample pickle''),
                      (''data/all.json.v2.json'', ''{stmts: [20, 10, 5], grouped: false}'')]\<rparr>
     ''data/all.pkl.v2.json'' = Inl FileNotFoundError"
    by (simp add: get_file_def s3_path_patt_def)
  have g: "get_json_content sample_cfg sample_ext
        \<lparr>s3_objects = [],
         local_files = [(''data/all.pkl.v2.pkl'', ''sample pickle''),
                      (''data/all.json.v2.json'', ''{stmts: [20, 10, 5], grouped: false}'')]\<rparr>
        [] (sample_get [(''grouped'', ''true'')]) ''all.pkl.v2'' =
     (Inr (Jsonify (PDict [(''stmts'', PList []), (''grouped'', PBool True)])),
      \<lparr>s3_objects = [],
       local_files = [(''data/all.pkl.v2.pkl'', ''sample pickle''),
                      (''data/all.json.v2.json'', ''{stmts: [], grouped: true}'')]\<rparr>)"
    by (simp add: store_eval sample_ext_eval replace.simps)
  from a b c d e f g show ?thesis by simp
qed

text \<open>
  For comparison, a name without such neighbours: \<^verbatim>\<open>data/all.pkl\<close> alone. The first request
  renders and writes \<^verbatim>\<open>data/all.json\<close>; the second returns the stored document and leaves the
  store as it is.
\<close>

lemma render_once_plain_name:
  "get_json_content sample_cfg sample_ext store_raw [] (sample_get []) ''all'' =
     (Inr (Jsonify sample_document),
      \<lparr>s3_objects = [],
       local_files = [(''data/all.pkl'', ''sample pickle''),
                      (''data/all.json'', ''{stmts: [20, 10, 5], grouped: false}'')]\<rparr>) \<and>
   get_json_content sample_cfg sample_ext
      \<lparr>s3_objects = [],
       local_files = [(''data/all.pkl'', ''sample pickle''),
                      (''data/all.json'', ''{stmts: [20, 10, 5], grouped: false}'')]\<rparr>
      [] (sample_get []) ''all'' =
     (Inr (Jsonify sample_document),
      \<lparr>s3_objects = [],
       local_files = [(''data/all.pkl'', ''sample pickle''),
                      (''data/all.json'', ''{stmts: [20, 10, 5], grouped: false}'')]\<rparr>)"
  by (simp add: store_raw_def store_eval sample_ext_eval replace.simps)

text \<open>
  What the second request needs: when the location the first request wrote to is the first
  candidate ending in \<^verbatim>\<open>.json\<close> in the new listing for the name, and the document survives
  the JSON codec, every later request that does not force regeneration returns the same
  document and leaves the store as it is. Both inputs above break the first condition.
\<close>

lemma get_put_file: "get_file (put_file st p x) p = Inr x"
  by (simp add: get_file_def put_file_def update_conv' split: option.splits)

lemma render_once_when_listed:
  assumes wd: "WORKING_DIR cfg = Some wd"
    and regen: "args_get (args req) ''regen'' ''false'' \<noteq> ''true''"
    and call1: "get_json_content cfg ext st c req name = (Inr (Jsonify result), st')"
    and sel: "select_file False (list_files wd st name) = (Some file_path, False)"
    and roundtrip: "\<forall>text. json_dumps ext result = Inr text \<longrightarrow> json_loads ext text = Inr result"
    and listed: "find (suffix ''.json'') (list_files wd st' name)
                   = Some (replace ''.pkl'' ''.json'' file_path)"
  shows "get_json_content cfg ext st' c' req' name = (Inr (Jsonify result), st') \<or>
         args_get (args req') ''regen'' ''false'' = ''true''"
proof (cases "args_get (args req') ''regen'' ''false'' = ''true''")
  case True
  then show ?thesis by simp
next
  case False
  from wd regen call1 sel obtain dumped where d: "json_dumps ext result = Inr dumped"
    and st': "st' = put_file st (replace ''.pkl'' ''.json'' file_path) dumped"
    by (auto simp: get_json_content_def Let_def split: sum.splits)
  from roundtrip d have l: "json_loads ext dumped = Inr result" by blast
  from listed have "select_file False (list_files wd st' name)
      = (Some (replace ''.pkl'' ''.json'' file_path), True)"
    by (simp add: select_file_def select_loop_json)
  with wd False l show ?thesis
    by (simp add: get_json_content_def Let_def st' get_put_file)
qed

section \<open>Properties of the name listing\<close>

text \<open>
  \<^verbatim>\<open>replace\<close> where the pattern does not occur, and where it occurs at the end only.
\<close>

lemma replace_absent: "old \<noteq> [] \<Longrightarrow> \<not> sublist old s \<Longrightarrow> replace old new s = s"
proof (induction s)
  case Nil
  then show ?case by (simp add: replace.simps [of old new "[]"])
next
  case (Cons c cs)
  from Cons.prems have np: "\<not> prefix old (c # cs)" and ns: "\<not> sublist old cs"
    by (auto simp: sublist_Cons_right)
  with Cons show ?case
    by (simp add: replace.simps [of old new "c # cs"])
qed

lemma prefix_butlast_shorter:
  "prefix xs ys \<Longrightarrow> length xs < length ys \<Longrightarrow> prefix xs (butlast ys)"
  by (auto simp: prefix_def butlast_append)

lemma replace_only_suffix:
  "old \<noteq> [] \<Longrightarrow> \<not> sublist old (butlast (p @ old)) \<Longrightarrow> replace old new (p @ old) = p @ new"
proof (induction p)
  case Nil
  then show ?case
    by (simp add: replace.simps [of old new old] replace.simps [of old new "[]"])
next
  case (Cons c p)
  have "\<not> prefix old (c # p @ old)"
  proof
    assume "prefix old (c # p @ old)"
    then have "prefix old (butlast (c # p @ old))"
      by (rule prefix_butlast_shorter) simp
    then have "sublist old (butlast ((c # p) @ old))" by (simp add: prefix_imp_sublist)
    with Cons.prems show False by simp
  qed
  moreover from Cons.prems have "\<not> sublist old (butlast (p @ old))"
    by (auto simp: sublist_Cons_right)
  ultimately show ?case
    using Cons by (simp add: replace.simps [of old new "c # p @ old"])
qed

lemma replace_empty_old: "replace [] [] s = s"
  by (induction s) (simp_all add: replace.simps [of "[]" "[]"])

text \<open>
  When every candidate that ends in \<^verbatim>\<open>.html\<close> or \<^verbatim>\<open>.pkl\<close> is plain, the names reported by
  \<^verbatim>\<open>GET /list\<close> are the stems of these candidates. A name that has neither artifact is then
  not reported, while \<^verbatim>\<open>GET /json/<name>\<close> selects a rendered artifact if one is listed for it.
\<close>

lemma plain_artifact_decomp:
  assumes "plain_artifact wd e opt"
  shows "opt = wd @ stem_of wd e opt @ e"
proof -
  from assms obtain zs where zs: "opt = zs @ e"
    by (auto simp: plain_artifact_def suffix_def)
  then have t: "take (length opt - length e) opt = zs" by simp
  with assms obtain ys where ys: "zs = wd @ ys"
    by (auto simp: plain_artifact_def prefix_def)
  with t have "stem_of wd e opt = ys" by (simp add: stem_of_def)
  with zs ys show ?thesis by simp
qed

lemma plain_artifact_name:
  assumes p: "plain_artifact wd e opt" and e: "e \<noteq> []"
  shows "replace wd [] (replace e [] opt) = stem_of wd e opt"
proof -
  let ?stem = "stem_of wd e opt"
  from plain_artifact_decomp [OF p] have d: "opt = (wd @ ?stem) @ e" by simp
  from p have "\<not> sublist e (butlast opt)" by (simp add: plain_artifact_def)
  with d have "\<not> sublist e (butlast ((wd @ ?stem) @ e))" by simp
  from replace_only_suffix [OF e this, of "[]"] d
  have r1: "replace e [] opt = wd @ ?stem" by simp
  show ?thesis
  proof (cases "wd = []")
    case True
    with r1 show ?thesis by (simp add: replace_empty_old)
  next
    case False
    with p have ns: "\<not> sublist wd ?stem" by (simp add: plain_artifact_def)
    from False have "replace wd [] (wd @ ?stem) = replace wd [] ?stem"
      by (simp add: replace.simps [of wd "[]" "wd @ ?stem"])
    with replace_absent [OF False ns] r1 show ?thesis by simp
  qed
qed

lemma set_add_set: "set (set_add x xs) = insert x (set xs)"
  by (auto simp: set_add_def)

lemma add_option_set: "set (add_option wd opt acc) = set acc \<union> derived_names wd opt"
  by (auto simp: add_option_def derived_names_def set_add_set)

lemma list_names_fold:
  "set (foldl (\<lambda>options option. add_option wd option options) acc listing)
   = set acc \<union> (\<Union>opt \<in> set listing. derived_names wd opt)"
proof (induction listing arbitrary: acc)
  case Nil
  then show ?case by simp
next
  case (Cons a listing)
  have "set (foldl (\<lambda>options option. add_option wd option options) acc (a # listing))
        = set (add_option wd a acc) \<union> (\<Union>opt \<in> set listing. derived_names wd opt)"
    using Cons.IH [of "add_option wd a acc"] by simp
  then show ?case
    by (auto simp: add_option_set)
qed

lemma list_names_options_set:
  "set (list_names_options wd listing) =
     {replace wd [] (replace e [] opt) | opt e.
        opt \<in> set listing \<and> e \<in> {''.html'', ''.pkl''} \<and> suffix e opt}"
  unfolding list_names_options_def list_names_fold
  by (auto simp: derived_names_def)

lemma json_only_name_absent:
  assumes plain: "\<forall>opt \<in> set listing. \<forall>e \<in> {''.html'', ''.pkl''}.
                    suffix e opt \<longrightarrow> plain_artifact wd e opt"
    and "wd @ name @ ''.html'' \<notin> set listing" and "wd @ name @ ''.pkl'' \<notin> set listing"
  shows "name \<notin> set (list_names_options wd listing)"
proof
  assume "name \<in> set (list_names_options wd listing)"
  then obtain opt e where o: "opt \<in> set listing" and e: "e \<in> {''.html'', ''.pkl''}"
    and s: "suffix e opt" and n: "name = replace wd [] (replace e [] opt)"
    unfolding list_names_options_set by blast
  from plain o e s have p: "plain_artifact wd e opt" by blast
  from e have "e \<noteq> []" by auto
  from plain_artifact_name [OF p this] n have "stem_of wd e opt = name" by simp
  with plain_artifact_decomp [OF p] have "opt = wd @ name @ e" by simp
  with o e assms(2,3) show False by auto
qed

lemma json_candidate_selected:
  assumes "opt \<in> set options" and "suffix ''.json'' opt"
  shows "\<exists>j. select_file False options = (Some j, True) \<and> suffix ''.json'' j \<and> j \<in> set options"
proof -
  from assms obtain j where j: "find (suffix ''.json'') options = Some j"
    by (cases "find (suffix ''.json'') options") (auto simp: find_None_iff)
  then have "suffix ''.json'' j \<and> j \<in> set options"
    by (auto simp: find_Some_iff)
  with j show ?thesis
    by (simp add: select_file_def select_loop_json)
qed

text \<open>
  Claim C10 evaluated. The working directory holds \<^verbatim>\<open>data/ab.json\<close>, the only artifact of the
  name \<^verbatim>\<open>ab\<close>, and \<^verbatim>\<open>data/a.pklb.pkl\<close>, the raw artifact of the name \<^verbatim>\<open>a.pklb\<close>.
  \<^verbatim>\<open>replace\<close> removes both occurrences of \<^verbatim>\<open>.pkl\<close> from the latter, so \<^verbatim>\<open>GET /list\<close> reports the
  name \<^verbatim>\<open>ab\<close>.
\<close>

theorem json_only_name_listed:
  "list_files ''data/'' store_json_only [] = [''data/ab.json'', ''data/a.pklb.pkl''] \<and>
   list_files ''data/'' store_json_only ''ab'' = [''data/ab.json''] \<and>
   list_names sample_cfg store_json_only = Inr (Jsonify (PList [PStr ''ab'']))"
  by (simp add: store_json_only_def list_names_def list_names_options_def add_option_def
      set_add_def sample_cfg_def list_files_def listdir_def dir_entry_def path_join_def s3_path_patt_def
      List.map_filter_def suffix_to_prefix replace.simps)

end
